theory Spec2Isabelle
  imports Complex_Main "HOL-Library.Log_Nat"
begin

section \<open>Numbers\<close>

text \<open>
  The scorer computes on Python floats. Two embeddings of it are given. The first,
  in this section, computes on exact rationals: the operations of the source (division
  by a constant, \<open>min\<close>, \<open>max\<close>, multiplication by a weight, addition) are taken without
  rounding error. It is used for the statements that do not depend on the rounding
  error of an operation: bounds on the score, comparisons of scores, the level and
  colour that go with a returned score, and the routes, which only pass the score on.
  The second, further below, computes in binary64 operation by operation and is used
  where the value of the returned score matters. The two differ at some inputs: at
  \<open>(6, 0, 100, 7, 3)\<close> the exact sum is 34.95 and rounds to 35.0, where the source
  computes a sum just below 34.95 and returns 34.9.

  Python's \<open>round(x, 1)\<close> rounds the exact value of \<open>x\<close> to the nearest multiple of one
  tenth and breaks an exact tie towards the even tenth.
\<close>

definition py_round1 :: "rat \<Rightarrow> rat" where
  "py_round1 x =
     (let y = x * 10;
          f = \<lfloor>y\<rfloor>;
          d = y - of_int f
      in of_int (if d < 1 / 2 then f
                 else if 1 / 2 < d then f + 1
                 else if even f then f else f + 1) / 10)"

section \<open>Flood risk engine\<close>

record FloodRisk =
  score :: rat
  level :: string
  color :: string

definition calculate_flood_probability :: "rat \<Rightarrow> rat \<Rightarrow> rat \<Rightarrow> rat \<Rightarrow> rat \<Rightarrow> FloodRisk" where
  "calculate_flood_probability rain_1h rain_3h humidity wind_speed clouds =
     (let s = 0;
          s = s + min (rain_1h / 20) 1 * 40;
          s = s + min (rain_3h / 40) 1 * 25;
          s = s + min (max (humidity - 60) 0 / 40) 1 * 20;
          s = s + min (wind_speed / 25) 1 * 10;
          s = s + min (clouds / 100) 1 * 5;
          s = py_round1 (min s 100)
      in if s \<ge> 65 then \<lparr>score = s, level = ''HIGH'', color = ''#ef4444''\<rparr>
         else if s \<ge> 35 then \<lparr>score = s, level = ''MEDIUM'', color = ''#f59e0b''\<rparr>
         else \<lparr>score = s, level = ''LOW'', color = ''#22c55e''\<rparr>)"

section \<open>Database layer\<close>

text \<open>
  The tables of \<open>database.py\<close> that the verified routes touch. A timestamp is a value
  read from the clock; the clock is a sequence of readings, and every call of
  \<open>datetime.utcnow()\<close> consumes the next one. Field names carry a prefix where two
  classes of the source share a name.
\<close>

type_synonym time = nat

type_synonym clock = "nat \<Rightarrow> time"

record City =
  city_id :: int
  city_name :: string
  country :: string
  city_state :: string
  lat :: rat
  lon :: rat
  city_created_at :: time
  is_favorite :: bool

record WeatherLog =
  wl_id :: int
  wl_city_id :: int
  wl_recorded_at :: time
  wl_temperature :: "rat option"
  wl_feels_like :: "rat option"
  wl_humidity :: "rat option"
  wl_pressure :: "rat option"
  wl_wind_speed :: "rat option"
  wl_wind_deg :: "rat option"
  wl_clouds :: "rat option"
  wl_rain_1h :: rat
  wl_rain_3h :: rat
  wl_description :: string
  wl_icon :: string
  wl_flood_score :: rat
  wl_flood_level :: string

record Alert =
  alert_id :: int
  alert_city_id :: int
  threshold :: rat
  label :: string
  is_active :: bool
  created_at :: time
  last_triggered :: "time option"
  trigger_count :: int

record database =
  cities :: "City list"
  weather_logs :: "WeatherLog list"
  alerts :: "Alert list"

text \<open>
  A SQLAlchemy session (\<open>autocommit=False, autoflush=False\<close>): \<open>stored\<close> is what the
  database holds durably, \<open>pending\<close> is the rows as the session sees them, with the
  objects it has added or changed and not yet committed. \<open>ticks\<close> counts the clock
  readings taken so far. \<open>faults\<close> injects a failure of the persistence layer:
  \<open>Some k\<close> lets \<open>k\<close> more database calls (queries, commits, reloads) succeed and
  makes the next one raise; \<open>None\<close> injects nothing.
\<close>

record Session =
  stored :: database
  pending :: database
  ticks :: nat
  faults :: "nat option"

datatype exn =
  HTTPException int string
  | RequestValidationError
  | IndexError
  | TransportError string
  | OperationalError
  | InvalidRequestError
  | ObjectDeletedError

text \<open>\<open>str(e)\<close> for the exceptions the stream's handler can catch.\<close>

fun str_of_exn :: "exn \<Rightarrow> string" where
  "str_of_exn (HTTPException status detail) = detail"
| "str_of_exn RequestValidationError = ''validation error''"
| "str_of_exn IndexError = ''list index out of range''"
| "str_of_exn (TransportError msg) = msg"
| "str_of_exn OperationalError = ''database error''"
| "str_of_exn InvalidRequestError = ''could not refresh instance''"
| "str_of_exn ObjectDeletedError = ''instance has been deleted''"

text \<open>
  A route body runs on a session and either returns a value or raises; the session
  it leaves behind is kept in both cases.
\<close>

type_synonym 'a io = "Session \<Rightarrow> (exn + 'a) \<times> Session"

definition return_io :: "'a \<Rightarrow> 'a io" where
  "return_io x s = (Inr x, s)"

definition raise_io :: "exn \<Rightarrow> 'a io" where
  "raise_io e s = (Inl e, s)"

definition bind_io :: "'a io \<Rightarrow> ('a \<Rightarrow> 'b io) \<Rightarrow> 'b io" where
  "bind_io m f s = (case m s of (Inl e, s') \<Rightarrow> (Inl e, s') | (Inr x, s') \<Rightarrow> f x s')"

definition utcnow :: "clock \<Rightarrow> time io" where
  "utcnow clk s = (Inr (clk (ticks s)), s\<lparr>ticks := Suc (ticks s)\<rparr>)"

definition db_call :: "unit io" where
  "db_call s =
     (case faults s of
        None \<Rightarrow> (Inr (), s)
      | Some 0 \<Rightarrow> (Inl OperationalError, s)
      | Some (Suc k) \<Rightarrow> (Inr (), s\<lparr>faults := Some k\<rparr>))"

definition db_commit :: "unit io" where
  "db_commit = bind_io db_call (\<lambda>_ s. (Inr (), s\<lparr>stored := pending s\<rparr>))"

definition query_city_first :: "int \<Rightarrow> City option io" where
  "query_city_first cid =
     bind_io db_call (\<lambda>_ s. (Inr (find (\<lambda>c. city_id c = cid) (cities (pending s))), s))"

definition query_alerts_all :: "(Alert \<Rightarrow> bool) \<Rightarrow> Alert list io" where
  "query_alerts_all cond =
     bind_io db_call (\<lambda>_ s. (Inr (filter cond (alerts (pending s))), s))"

text \<open>
  The integer primary key of a new row (SQLite: one more than the largest key in the
  table) and the column defaults are filled in when the row is flushed. Every \<open>db.add\<close>
  of the verified routes is followed at once by \<open>db.commit()\<close>, so the model fills them
  in at \<open>db.add\<close>.
\<close>

definition next_id :: "int list \<Rightarrow> int" where
  "next_id ids = fold max ids 0 + 1"

definition db_add_weather_log :: "clock \<Rightarrow> (int \<Rightarrow> time \<Rightarrow> WeatherLog) \<Rightarrow> unit io" where
  "db_add_weather_log clk mk s =
     (Inr (),
      s\<lparr>pending := (pending s)\<lparr>weather_logs := weather_logs (pending s)
            @ [mk (next_id (map wl_id (weather_logs (pending s)))) (clk (ticks s))]\<rparr>,
        ticks := Suc (ticks s)\<rparr>)"

definition db_add_alert :: "clock \<Rightarrow> (int \<Rightarrow> time \<Rightarrow> Alert) \<Rightarrow> int io" where
  "db_add_alert clk mk s =
     (let i = next_id (map alert_id (alerts (pending s))) in
      (Inr i,
       s\<lparr>pending := (pending s)\<lparr>alerts := alerts (pending s) @ [mk i (clk (ticks s))]\<rparr>,
         ticks := Suc (ticks s)\<rparr>))"

definition db_refresh_alert :: "int \<Rightarrow> Alert io" where
  "db_refresh_alert i =
     bind_io db_call (\<lambda>_ s.
       case find (\<lambda>a. alert_id a = i) (alerts (stored s)) of
         None \<Rightarrow> (Inl InvalidRequestError, s)
       | Some a \<Rightarrow> (Inr a, s))"

text \<open>
  A commit expires the objects of the session (\<open>expire_on_commit\<close> is on by default):
  the next read of an attribute of a loaded city loads its row again.
\<close>

definition reload_city :: "City \<Rightarrow> City io" where
  "reload_city c =
     bind_io db_call (\<lambda>_ s.
       case find (\<lambda>x. city_id x = city_id c) (cities (stored s)) of
         None \<Rightarrow> (Inl ObjectDeletedError, s)
       | Some c' \<Rightarrow> (Inr c', s))"

text \<open>
  An attribute assignment on a loaded row object changes the session's copy of the row
  with that primary key.
\<close>

definition update_alert :: "int \<Rightarrow> (Alert \<Rightarrow> Alert) \<Rightarrow> unit io" where
  "update_alert i f s =
     (Inr (),
      s\<lparr>pending := (pending s)\<lparr>alerts :=
            map (\<lambda>r. if alert_id r = i then f r else r) (alerts (pending s))\<rparr>\<rparr>)"

text \<open>
  One request: \<open>get_db\<close> opens a fresh session on the database and closes it when the
  route is done, whether it returned or raised; what was not committed is lost. The
  clock keeps running across requests.
\<close>

definition request :: "'a io \<Rightarrow> nat option \<Rightarrow> database \<times> nat \<Rightarrow> (exn + 'a) \<times> database \<times> nat" where
  "request route fault w =
     (case route \<lparr>stored = fst w, pending = fst w, ticks = snd w, faults = fault\<rparr> of
        (r, s) \<Rightarrow> (r, stored s, ticks s))"

section \<open>Upstream weather data\<close>

text \<open>
  The JSON object of the weather provider, read by the routes with \<open>dict.get\<close>: a key
  that is absent is \<open>None\<close>. The nested objects \<open>rain\<close>, \<open>main\<close>, \<open>wind\<close> and
  \<open>clouds\<close> are flattened, since the source reads an absent object as an empty one.
  Fields that are present hold values of the documented type.
\<close>

record WeatherItem =
  item_description :: "string option"
  item_icon :: "string option"

record OwmData =
  owm_name :: "string option"
  owm_rain_1h :: "rat option"
  owm_rain_3h :: "rat option"
  owm_temp :: "rat option"
  owm_feels_like :: "rat option"
  owm_humidity :: "rat option"
  owm_pressure :: "rat option"
  owm_wind_speed :: "rat option"
  owm_wind_deg :: "rat option"
  owm_clouds_all :: "rat option"
  owm_weather :: "WeatherItem list option"
  owm_visibility :: "int option"

text \<open>
  What the call of the provider gives: a response with its status code and body, or an
  exception of the HTTP client (a timeout, a refused connection) with its message.
\<close>

datatype Upstream = Response int OwmData | Failed string

text \<open>\<open>d.get(key, default)\<close>\<close>

definition get_or :: "'a \<Rightarrow> 'a option \<Rightarrow> 'a" where
  "get_or dflt v = (case v of None \<Rightarrow> dflt | Some x \<Rightarrow> x)"

text \<open>\<open>d.get("weather", [{}])[0]\<close>: an empty list raises.\<close>

definition weather0 :: "OwmData \<Rightarrow> exn + WeatherItem" where
  "weather0 d =
     (case owm_weather d of
        None \<Rightarrow> Inr \<lparr>item_description = None, item_icon = None\<rparr>
      | Some [] \<Rightarrow> Inl IndexError
      | Some (x # _) \<Rightarrow> Inr x)"

definition flood_of :: "OwmData \<Rightarrow> FloodRisk" where
  "flood_of d =
     calculate_flood_probability
       (get_or 0 (owm_rain_1h d)) (get_or 0 (owm_rain_3h d)) (get_or 0 (owm_humidity d))
       (get_or 0 (owm_wind_speed d)) (get_or 0 (owm_clouds_all d))"

section \<open>Routes\<close>

text \<open>
  The routes take the configured provider key and the provider's answer as arguments.
  The API-key dependency and the rate limiter of the source are not part of the model.
\<close>

record WeatherResponse =
  wr_city :: string
  wr_temperature :: "rat option"
  wr_feels_like :: "rat option"
  wr_humidity :: "rat option"
  wr_pressure :: "rat option"
  wr_wind_speed :: "rat option"
  wr_wind_deg :: "rat option"
  wr_clouds :: "rat option"
  wr_rain_1h :: rat
  wr_rain_3h :: rat
  wr_description :: string
  wr_icon :: string
  wr_visibility :: "int option"
  wr_flood_risk :: FloodRisk

subsection \<open>\<open>_log_weather\<close>\<close>

text \<open>The row built by the call \<open>WeatherLog(...)\<close>, before its key and timestamp are set.\<close>

definition weather_log_row ::
  "int \<Rightarrow> OwmData \<Rightarrow> WeatherItem \<Rightarrow> FloodRisk \<Rightarrow> int \<Rightarrow> time \<Rightarrow> WeatherLog" where
  "weather_log_row cid w item flood i t =
     \<lparr>wl_id = i, wl_city_id = cid, wl_recorded_at = t,
      wl_temperature = owm_temp w, wl_feels_like = owm_feels_like w,
      wl_humidity = owm_humidity w, wl_pressure = owm_pressure w,
      wl_wind_speed = owm_wind_speed w, wl_wind_deg = owm_wind_deg w,
      wl_clouds = owm_clouds_all w,
      wl_rain_1h = get_or 0 (owm_rain_1h w), wl_rain_3h = get_or 0 (owm_rain_3h w),
      wl_description = get_or [] (item_description item),
      wl_icon = get_or [] (item_icon item),
      wl_flood_score = score flood, wl_flood_level = level flood\<rparr>"

definition log_weather :: "clock \<Rightarrow> int \<Rightarrow> OwmData \<Rightarrow> FloodRisk \<Rightarrow> unit io" where
  "log_weather clk cid w flood =
     (case weather0 w of
        Inl e \<Rightarrow> raise_io e
      | Inr item \<Rightarrow>
          bind_io (db_add_weather_log clk (weather_log_row cid w item flood))
            (\<lambda>_. db_commit))"

subsection \<open>\<open>GET /weather\<close>\<close>

text \<open>The loop \<open>for alert in alerts\<close> of \<open>get_weather\<close>: every selected alert fires.\<close>

fun trigger_all :: "clock \<Rightarrow> Alert list \<Rightarrow> unit io" where
  "trigger_all clk [] = return_io ()"
| "trigger_all clk (alert # rest) =
     bind_io (utcnow clk) (\<lambda>now.
     bind_io (update_alert (alert_id alert) (\<lambda>r. r\<lparr>last_triggered := Some now\<rparr>)) (\<lambda>_.
     bind_io (update_alert (alert_id alert) (\<lambda>r. r\<lparr>trigger_count := trigger_count r + 1\<rparr>)) (\<lambda>_.
     trigger_all clk rest)))"

text \<open>The value built by the call \<open>WeatherResponse(...)\<close>.\<close>

definition weather_response_of :: "OwmData \<Rightarrow> WeatherItem \<Rightarrow> FloodRisk \<Rightarrow> WeatherResponse" where
  "weather_response_of d item flood =
     \<lparr>wr_city = get_or [] (owm_name d),
      wr_temperature = owm_temp d, wr_feels_like = owm_feels_like d,
      wr_humidity = owm_humidity d, wr_pressure = owm_pressure d,
      wr_wind_speed = owm_wind_speed d,
      wr_wind_deg = Some (get_or 0 (owm_wind_deg d)),
      wr_clouds = owm_clouds_all d,
      wr_rain_1h = get_or 0 (owm_rain_1h d), wr_rain_3h = get_or 0 (owm_rain_3h d),
      wr_description = get_or [] (item_description item),
      wr_icon = get_or [] (item_icon item),
      wr_visibility = owm_visibility d,
      wr_flood_risk = flood\<rparr>"

definition weather_response :: "OwmData \<Rightarrow> FloodRisk \<Rightarrow> WeatherResponse io" where
  "weather_response d flood =
     (case weather0 d of
        Inl e \<Rightarrow> raise_io e
      | Inr item \<Rightarrow> return_io (weather_response_of d item flood))"

text \<open>
  \<open>if save_log and city_id\<close>: the city id is optional, and both \<open>None\<close> and \<open>0\<close> are
  false in Python.
\<close>

definition get_weather :: "string \<Rightarrow> clock \<Rightarrow> Upstream \<Rightarrow> bool \<Rightarrow> int option \<Rightarrow> WeatherResponse io" where
  "get_weather OWM_API_KEY clk upstream save_log cid_opt =
     (if OWM_API_KEY = [] then raise_io (HTTPException 500 ''OWM API key not configured.'')
      else case upstream of
        Failed msg \<Rightarrow> raise_io (TransportError msg)
      | Response status_code d \<Rightarrow>
          if status_code \<noteq> 200 then raise_io (HTTPException status_code ''Weather API error.'')
          else
            let flood = flood_of d in
            bind_io
              (case cid_opt of
                 None \<Rightarrow> return_io ()
               | Some cid \<Rightarrow>
                   if save_log \<and> cid \<noteq> 0 then
                     bind_io (log_weather clk cid d flood) (\<lambda>_.
                     bind_io (query_alerts_all (\<lambda>a. alert_city_id a = cid \<and> is_active a
                                  \<and> threshold a \<le> score flood)) (\<lambda>alerts.
                     bind_io (trigger_all clk alerts) (\<lambda>_.
                     db_commit)))
                   else return_io ())
              (\<lambda>_. weather_response d flood))"

subsection \<open>\<open>GET /alerts/check/{city_id}\<close>\<close>

record Triggered =
  tr_alert_id :: int
  tr_label :: string
  tr_threshold :: rat
  tr_current_score :: rat
  tr_flood_level :: string

record CheckResult =
  cr_city :: string
  cr_current_flood_score :: rat
  cr_flood_level :: string
  cr_alerts_triggered :: "Triggered list"
  cr_total_active_alerts :: nat

text \<open>The loop of \<open>check_alerts\<close>: an alert fires when the score reaches its threshold.\<close>

fun check_loop :: "clock \<Rightarrow> FloodRisk \<Rightarrow> Alert list \<Rightarrow> Triggered list \<Rightarrow> Triggered list io" where
  "check_loop clk flood [] triggered = return_io triggered"
| "check_loop clk flood (alert # rest) triggered =
     (if score flood \<ge> threshold alert then
        bind_io (utcnow clk) (\<lambda>now.
        bind_io (update_alert (alert_id alert) (\<lambda>r. r\<lparr>last_triggered := Some now\<rparr>)) (\<lambda>_.
        bind_io (update_alert (alert_id alert) (\<lambda>r. r\<lparr>trigger_count := trigger_count r + 1\<rparr>)) (\<lambda>_.
        check_loop clk flood rest
          (triggered @ [\<lparr>tr_alert_id = alert_id alert, tr_label = label alert,
                         tr_threshold = threshold alert, tr_current_score = score flood,
                         tr_flood_level = level flood\<rparr>]))))
      else check_loop clk flood rest triggered)"

definition check_alerts :: "string \<Rightarrow> clock \<Rightarrow> (City \<Rightarrow> Upstream) \<Rightarrow> int \<Rightarrow> CheckResult io" where
  "check_alerts OWM_API_KEY clk fetch cid =
     bind_io (query_city_first cid) (\<lambda>city_opt.
       case city_opt of
         None \<Rightarrow> raise_io (HTTPException 404 ''City not found.'')
       | Some city \<Rightarrow>
           if OWM_API_KEY = [] then raise_io (HTTPException 500 ''OWM API key not configured.'')
           else case fetch city of
             Failed msg \<Rightarrow> raise_io (TransportError msg)
           | Response status_code d \<Rightarrow>
               if status_code \<noteq> 200
               then raise_io (HTTPException status_code ''Weather API error.'')
               else
                 let flood = flood_of d in
                 bind_io (query_alerts_all (\<lambda>a. alert_city_id a = cid \<and> is_active a)) (\<lambda>alerts.
                 bind_io (check_loop clk flood alerts []) (\<lambda>triggered.
                 bind_io db_commit (\<lambda>_.
                 bind_io (reload_city city) (\<lambda>city.
                 return_io
                   \<lparr>cr_city = city_name city, cr_current_flood_score = score flood,
                    cr_flood_level = level flood, cr_alerts_triggered = triggered,
                    cr_total_active_alerts = length alerts\<rparr>)))))"

subsection \<open>\<open>POST /alerts\<close>\<close>

text \<open>An integer in decimal, as an f-string formats it.\<close>

fun str_of_nat :: "nat \<Rightarrow> string" where
  "str_of_nat n =
     (if n < 10 then [''0123456789'' ! n]
      else str_of_nat (n div 10) @ [''0123456789'' ! (n mod 10)])"

declare str_of_nat.simps [simp del]

definition str_of_int :: "int \<Rightarrow> string" where
  "str_of_int i = (if i < 0 then CHR ''-'' # str_of_nat (nat (- i)) else str_of_nat (nat i))"

record AlertCreate =
  ac_city_id :: int
  ac_threshold :: rat
  ac_label :: string

text \<open>
  The request body is validated against the schema \<open>AlertCreate\<close> before the route
  body runs: \<open>threshold: float = Field(..., ge=0, le=100)\<close>.
\<close>

definition validate_AlertCreate :: "AlertCreate \<Rightarrow> exn + AlertCreate" where
  "validate_AlertCreate body =
     (if 0 \<le> ac_threshold body \<and> ac_threshold body \<le> 100 then Inr body
      else Inl RequestValidationError)"

definition create_alert :: "clock \<Rightarrow> AlertCreate \<Rightarrow> Alert io" where
  "create_alert clk body =
     bind_io (query_city_first (ac_city_id body)) (\<lambda>city_opt.
       case city_opt of
         None \<Rightarrow> raise_io (HTTPException 404
                   (''City ID '' @ str_of_int (ac_city_id body)
                      @ '' not found. Save the city first.''))
       | Some city \<Rightarrow>
           bind_io (db_add_alert clk (\<lambda>i t.
             \<lparr>alert_id = i, alert_city_id = ac_city_id body, threshold = ac_threshold body,
              label = ac_label body, is_active = True, created_at = t,
              last_triggered = None, trigger_count = 0\<rparr>)) (\<lambda>i.
           bind_io db_commit (\<lambda>_.
           db_refresh_alert i)))"

definition post_alerts :: "clock \<Rightarrow> AlertCreate \<Rightarrow> Alert io" where
  "post_alerts clk raw =
     (case validate_AlertCreate raw of
        Inl e \<Rightarrow> raise_io e
      | Inr body \<Rightarrow> create_alert clk body)"

subsection \<open>\<open>GET /weather-stream\<close>\<close>

record Payload =
  ev_temperature :: "rat option"
  ev_humidity :: "rat option"
  ev_wind_speed :: "rat option"
  ev_rain_1h :: rat
  ev_rain_3h :: rat
  ev_clouds :: "rat option"
  ev_description :: string
  ev_flood_risk :: FloodRisk
  ev_timestamp :: time

text \<open>The JSON objects the stream sends: a scored payload, or \<open>{"error": message}\<close>.\<close>

datatype Event = Data Payload | ErrorEvent string

text \<open>
  The body of the \<open>try\<close> block of one cycle: it gives the event to send, or the exception
  raised before anything was sent. The second component counts the clock readings.
\<close>

definition try_cycle :: "clock \<Rightarrow> nat \<Rightarrow> Upstream \<Rightarrow> (exn + Event) \<times> nat" where
  "try_cycle clk t upstream =
     (case upstream of
        Failed msg \<Rightarrow> (Inl (TransportError msg), t)
      | Response status_code d \<Rightarrow>
          if status_code = 200 then
            (let flood = flood_of d in
             case weather0 d of
               Inl e \<Rightarrow> (Inl e, t)
             | Inr item \<Rightarrow>
                 (Inr (Data
                    \<lparr>ev_temperature = owm_temp d, ev_humidity = owm_humidity d,
                     ev_wind_speed = owm_wind_speed d,
                     ev_rain_1h = get_or 0 (owm_rain_1h d),
                     ev_rain_3h = get_or 0 (owm_rain_3h d),
                     ev_clouds = owm_clouds_all d,
                     ev_description = get_or [] (item_description item),
                     ev_flood_risk = flood, ev_timestamp = clk t\<rparr>), Suc t))
          else (Inr (ErrorEvent ''API error''), t))"

text \<open>\<open>except Exception as e\<close>: the exception becomes an error event.\<close>

definition cycle :: "clock \<Rightarrow> nat \<Rightarrow> Upstream \<Rightarrow> Event \<times> nat" where
  "cycle clk t upstream =
     (case try_cycle clk t upstream of
        (Inl e, t') \<Rightarrow> (ErrorEvent (str_of_exn e), t')
      | (Inr ev, t') \<Rightarrow> (ev, t'))"

text \<open>
  The generator is observed over a finite list of cycles. In each cycle the environment
  either answers the provider call, or the consumer disconnects, which cancels the
  generator at its suspension point. What the generator does is a list of actions; a
  generator that has gone through all the cycles observed is still running.
\<close>

datatype Signal = Poll Upstream | Disconnect

datatype Action = Yield Event | Sleep nat

datatype Status = Running | Closed

fun event_generator :: "clock \<Rightarrow> nat \<Rightarrow> nat \<Rightarrow> Signal list \<Rightarrow> Action list \<times> Status" where
  "event_generator clk interval t [] = ([], Running)"
| "event_generator clk interval t (Disconnect # env) = ([], Closed)"
| "event_generator clk interval t (Poll upstream # env) =
     (case cycle clk t upstream of
        (ev, t') \<Rightarrow>
          (case event_generator clk interval t' env of
             (acts, st) \<Rightarrow> (Yield ev # Sleep interval # acts, st)))"

section \<open>Notions used in the statements\<close>

text \<open>An alert qualifies in an evaluation of a city at a score.\<close>

definition qualifies :: "int \<Rightarrow> rat \<Rightarrow> Alert \<Rightarrow> bool" where
  "qualifies cid sc a = (alert_city_id a = cid \<and> is_active a \<and> threshold a \<le> sc)"

text \<open>An alert after it has fired at a clock reading.\<close>

definition fired :: "time \<Rightarrow> Alert \<Rightarrow> Alert" where
  "fired now a = a\<lparr>last_triggered := Some now, trigger_count := trigger_count a + 1\<rparr>"

text \<open>
  The alerts table after one evaluation that starts at clock reading \<open>n\<close>: the rows that
  satisfy \<open>sel\<close> fire in table order, each at the next reading; the others stay.
\<close>

fun fire_map :: "(Alert \<Rightarrow> bool) \<Rightarrow> clock \<Rightarrow> nat \<Rightarrow> Alert list \<Rightarrow> Alert list" where
  "fire_map sel clk n [] = []"
| "fire_map sel clk n (a # tbl) =
     (if sel a then fired (clk n) a # fire_map sel clk (Suc n) tbl
      else a # fire_map sel clk n tbl)"

text \<open>Firing the rows with the given primary keys, one after the other.\<close>

fun fire_ids :: "clock \<Rightarrow> nat \<Rightarrow> int list \<Rightarrow> Alert list \<Rightarrow> Alert list" where
  "fire_ids clk n [] tbl = tbl"
| "fire_ids clk n (i # ids) tbl =
     fire_ids clk (Suc n) ids (map (\<lambda>r. if alert_id r = i then fired (clk n) r else r) tbl)"

definition alert_by_id :: "int \<Rightarrow> database \<Rightarrow> Alert option" where
  "alert_by_id i db = find (\<lambda>a. alert_id a = i) (alerts db)"

text \<open>
  Row \<open>a'\<close> is row \<open>a\<close> after an evaluation whose clock readings are those from \<open>t\<close>
  up to, and not including, \<open>t'\<close>: a selected alert has fired once at one of these
  readings, and any other alert is the same row as before.
\<close>

definition fired_within :: "(Alert \<Rightarrow> bool) \<Rightarrow> clock \<Rightarrow> nat \<Rightarrow> nat \<Rightarrow> Alert \<Rightarrow> Alert \<Rightarrow> bool" where
  "fired_within sel clk t t' a a' =
     (if sel a then (\<exists>k\<in>{t..<t'}. a' = fired (clk k) a) else a' = a)"

text \<open>
  The alerts table before and after one evaluation of city \<open>cid\<close> at score \<open>sc\<close>, row
  by row.
\<close>

definition evaluated_once :: "int \<Rightarrow> rat \<Rightarrow> clock \<Rightarrow> nat \<Rightarrow> nat \<Rightarrow> Alert list \<Rightarrow> Alert list \<Rightarrow> bool" where
  "evaluated_once cid sc clk t t' old new =
     list_all2 (fired_within (qualifies cid sc) clk t t') old new"

text \<open>Successive, independent calls of \<open>check_alerts\<close> for a city, without injected faults.\<close>

fun check_alerts_repeat ::
  "string \<Rightarrow> clock \<Rightarrow> int \<Rightarrow> (City \<Rightarrow> Upstream) list \<Rightarrow> database \<times> nat \<Rightarrow> database \<times> nat" where
  "check_alerts_repeat OWM_API_KEY clk cid [] w = w"
| "check_alerts_repeat OWM_API_KEY clk cid (fetch # fetches) w =
     check_alerts_repeat OWM_API_KEY clk cid fetches
       (snd (request (check_alerts OWM_API_KEY clk fetch cid) None w))"

text \<open>The snapshot row that a logged \<open>/weather\<close> request appends for city \<open>cid\<close>.\<close>

definition snapshot_of :: "int \<Rightarrow> OwmData \<Rightarrow> WeatherItem \<Rightarrow> clock \<Rightarrow> database \<times> nat \<Rightarrow> WeatherLog" where
  "snapshot_of cid d item clk w =
     weather_log_row cid d item (flood_of d)
       (next_id (map wl_id (weather_logs (fst w)))) (clk (snd w))"

text \<open>
  The scenario of the specification: a city with two active alerts, of thresholds 30
  and 80, and an observation that scores 50 (25 mm of rain in the last hour, 16 mm in
  the last three hours).
\<close>

definition scenario_db :: database where
  "scenario_db =
     \<lparr>cities = [\<lparr>city_id = 1, city_name = ''Chennai'', country = ''IN'', city_state = [],
                  lat = 13, lon = 80, city_created_at = 0, is_favorite = False\<rparr>],
      weather_logs = [],
      alerts = [\<lparr>alert_id = 1, alert_city_id = 1, threshold = 30, label = ''low'',
                  is_active = True, created_at = 0, last_triggered = None, trigger_count = 0\<rparr>,
                \<lparr>alert_id = 2, alert_city_id = 1, threshold = 80, label = ''high'',
                  is_active = True, created_at = 0, last_triggered = None, trigger_count = 0\<rparr>]\<rparr>"

definition scenario_data :: OwmData where
  "scenario_data =
     \<lparr>owm_name = Some ''Chennai'', owm_rain_1h = Some 25, owm_rain_3h = Some 16,
      owm_temp = Some 30, owm_feels_like = Some 33, owm_humidity = Some 60,
      owm_pressure = Some 1008, owm_wind_speed = Some 0, owm_wind_deg = None,
      owm_clouds_all = Some 0,
      owm_weather = Some [\<lparr>item_description = Some ''rain'', item_icon = Some ''10d''\<rparr>],
      owm_visibility = None\<rparr>"

text \<open>
  The event that one cycle of the live feed sends for what the environment gave it: an
  error event with the exception's message when the provider call raised, the error
  event \<open>API error\<close> when the status is not 200, and the scored payload for a
  well-formed answer. A status 200 answer whose \<open>weather\<close> list is empty makes the
  payload construction raise, which gives an error event as well.
\<close>

fun emits :: "Signal \<Rightarrow> Event \<Rightarrow> bool" where
  "emits Disconnect ev = False"
| "emits (Poll (Failed msg)) ev = (ev = ErrorEvent msg)"
| "emits (Poll (Response status_code d)) ev =
     (if status_code \<noteq> 200 then ev = ErrorEvent ''API error''
      else case weather0 d of
        Inl e \<Rightarrow> ev = ErrorEvent (str_of_exn e)
      | Inr item \<Rightarrow>
          (case ev of
             ErrorEvent _ \<Rightarrow> False
           | Data p \<Rightarrow>
               ev_flood_risk p = flood_of d
               \<and> ev_temperature p = owm_temp d \<and> ev_humidity p = owm_humidity d
               \<and> ev_wind_speed p = owm_wind_speed d
               \<and> ev_rain_1h p = get_or 0 (owm_rain_1h d)
               \<and> ev_rain_3h p = get_or 0 (owm_rain_3h d)
               \<and> ev_clouds p = owm_clouds_all d
               \<and> ev_description p = get_or [] (item_description item)))"

definition scenario_feed :: "Signal list" where
  "scenario_feed =
     [Poll (Response 200 scenario_data), Poll (Failed ''timed out''),
      Poll (Response 503 scenario_data), Poll (Response 200 scenario_data)]"

section \<open>Binary64 arithmetic\<close>

text \<open>
  Python's \<open>float\<close> is the IEEE 754 binary64 format, and every operation rounds its
  exact result to the nearest double, a tie going to the double with the even
  significand. A value is a finite double, given by the rational it stands for, an
  infinity, or NaN. The sign of a zero is not represented: \<open>-0.0\<close> and \<open>0.0\<close> compare
  equal in the source.
\<close>

datatype f64 = Fin rat | PosInf | NegInf | NaN

definition round_half_even :: "rat \<Rightarrow> int" where
  "round_half_even x =
     (let f = \<lfloor>x\<rfloor>; d = x - of_int f
      in if d < 1 / 2 then f
         else if 1 / 2 < d then f + 1
         else if even f then f else f + 1)"

text \<open>For \<open>x > 0\<close>, the exponent \<open>e\<close> with \<open>2 ^ e \<le> x < 2 ^ (e + 1)\<close>.\<close>

definition ilog2 :: "rat \<Rightarrow> int" where
  "ilog2 x =
     (case quotient_of x of
        (p, q) \<Rightarrow> let d = bitlen p - bitlen q in if x < 2 powi d then d - 1 else d)"

text \<open>
  The distance between neighbouring doubles around \<open>x \<noteq> 0\<close>: 53 significant bits, and
  the fixed spacing \<open>2 ^ -1074\<close> of the subnormal range below \<open>2 ^ -1022\<close>.
\<close>

definition quantum :: "rat \<Rightarrow> rat" where
  "quantum x = 2 powi (max (ilog2 \<bar>x\<bar>) (- 1022) - 52)"

text \<open>
  Rounding an exact result to a double. A result that rounds to \<open>2 ^ 1024\<close> or beyond
  overflows to an infinity.
\<close>

definition fl :: "rat \<Rightarrow> f64" where
  "fl x =
     (if x = 0 then Fin 0
      else let y = of_int (round_half_even (x / quantum x)) * quantum x
           in if 2 powi 1024 \<le> \<bar>y\<bar> then (if 0 < x then PosInf else NegInf) else Fin y)"

text \<open>Addition of two floats.\<close>

fun fadd :: "f64 \<Rightarrow> f64 \<Rightarrow> f64" where
  "fadd (Fin a) (Fin b) = fl (a + b)"
| "fadd NaN _ = NaN"
| "fadd _ NaN = NaN"
| "fadd PosInf NegInf = NaN"
| "fadd NegInf PosInf = NaN"
| "fadd PosInf _ = PosInf"
| "fadd NegInf _ = NegInf"
| "fadd _ PosInf = PosInf"
| "fadd _ NegInf = NegInf"

text \<open>
  The source divides by, multiplies by and subtracts positive constants only: \<open>x / c\<close>,
  \<open>x * c\<close>, \<open>c * x\<close> and \<open>x - c\<close> for a double \<open>c > 0\<close>.
\<close>

fun fdivc :: "f64 \<Rightarrow> rat \<Rightarrow> f64" where
  "fdivc (Fin a) c = fl (a / c)"
| "fdivc x c = x"

fun fmulc :: "f64 \<Rightarrow> rat \<Rightarrow> f64" where
  "fmulc (Fin a) c = fl (a * c)"
| "fmulc x c = x"

fun cmulf :: "rat \<Rightarrow> f64 \<Rightarrow> f64" where
  "cmulf c (Fin a) = fl (c * a)"
| "cmulf c x = x"

fun fsubc :: "f64 \<Rightarrow> rat \<Rightarrow> f64" where
  "fsubc (Fin a) c = fl (a - c)"
| "fsubc x c = x"

text \<open>
  Python's \<open>min(x, c)\<close> is \<open>c if c < x else x\<close> and \<open>max(x, c)\<close> is
  \<open>c if c > x else x\<close>; a comparison with NaN is false, so a NaN \<open>x\<close> is returned.
\<close>

fun py_min :: "f64 \<Rightarrow> rat \<Rightarrow> f64" where
  "py_min (Fin a) c = (if c < a then Fin c else Fin a)"
| "py_min PosInf c = Fin c"
| "py_min NegInf c = NegInf"
| "py_min NaN c = NaN"

fun py_max :: "f64 \<Rightarrow> rat \<Rightarrow> f64" where
  "py_max (Fin a) c = (if a < c then Fin c else Fin a)"
| "py_max PosInf c = PosInf"
| "py_max NegInf c = Fin c"
| "py_max NaN c = NaN"

text \<open>\<open>x >= c\<close>\<close>

fun f64_ge :: "f64 \<Rightarrow> rat \<Rightarrow> bool" where
  "f64_ge (Fin a) c = (c \<le> a)"
| "f64_ge PosInf c = True"
| "f64_ge NegInf c = False"
| "f64_ge NaN c = False"

text \<open>
  \<open>round(x, 1)\<close> on a float: the exact value of \<open>x\<close> is rounded to one decimal, a tie
  going to the even tenth, and the result is the double nearest to that decimal. An
  infinity or NaN is returned as it is.
\<close>

fun round1_f64 :: "f64 \<Rightarrow> f64" where
  "round1_f64 (Fin a) = fl (py_round1 a)"
| "round1_f64 x = x"

section \<open>Flood risk engine in binary64\<close>

text \<open>
  \<open>calculate_flood_probability\<close> with the arithmetic of the source, operation by
  operation. The exact-arithmetic function of the same name above leaves the rounding
  errors out; it is used for the statements that compare scores or bound them, and this
  one where the value of the returned score matters.
\<close>

record FloodRisk64 =
  score64 :: f64
  level64 :: string
  color64 :: string

definition calculate_flood_probability_f64 :: "f64 \<Rightarrow> f64 \<Rightarrow> f64 \<Rightarrow> f64 \<Rightarrow> f64 \<Rightarrow> FloodRisk64" where
  "calculate_flood_probability_f64 rain_1h rain_3h humidity wind_speed clouds =
     (let s = Fin 0;
          s = fadd s (fmulc (py_min (fdivc rain_1h 20) 1) 40);
          s = fadd s (fmulc (py_min (fdivc rain_3h 40) 1) 25);
          s = fadd s (fmulc (py_min (fdivc (py_max (fsubc humidity 60) 0) 40) 1) 20);
          s = fadd s (fmulc (py_min (fdivc wind_speed 25) 1) 10);
          s = fadd s (fmulc (py_min (fdivc clouds 100) 1) 5);
          s = round1_f64 (py_min s 100)
      in if f64_ge s 65 then \<lparr>score64 = s, level64 = ''HIGH'', color64 = ''#ef4444''\<rparr>
         else if f64_ge s 35 then \<lparr>score64 = s, level64 = ''MEDIUM'', color64 = ''#f59e0b''\<rparr>
         else \<lparr>score64 = s, level64 = ''LOW'', color64 = ''#22c55e''\<rparr>)"

text \<open>
  The formula as the specification writes it, each capped factor times its weight, in
  the same arithmetic.
\<close>

definition spec_score_f64 :: "f64 \<Rightarrow> f64 \<Rightarrow> f64 \<Rightarrow> f64 \<Rightarrow> f64 \<Rightarrow> f64" where
  "spec_score_f64 rain_1h rain_3h humidity wind_speed clouds =
     round1_f64 (py_min
       (fadd (fadd (fadd (fadd
          (cmulf 40 (py_min (fdivc rain_1h 20) 1))
          (cmulf 25 (py_min (fdivc rain_3h 40) 1)))
          (cmulf 20 (py_min (fdivc (py_max (fsubc humidity 60) 0) 40) 1)))
          (cmulf 10 (py_min (fdivc wind_speed 25) 1)))
          (cmulf 5 (py_min (fdivc clouds 100) 1))) 100)"

section \<open>Properties of the flood risk engine\<close>

lemma py_round1_nonneg: "0 \<le> x \<Longrightarrow> 0 \<le> py_round1 x"
  unfolding py_round1_def Let_def by auto

lemma py_round1_tenth: "py_round1 (of_int k / 10) = of_int k / 10"
  unfolding py_round1_def Let_def by simp

lemma py_round1_is_tenth: "\<exists>k::int. py_round1 x = of_int k / 10"
  unfolding py_round1_def Let_def by blast

lemma py_round1_idem: "py_round1 (py_round1 x) = py_round1 x"
proof -
  obtain k :: int where "py_round1 x = of_int k / 10" using py_round1_is_tenth by blast
  then show ?thesis by (simp only: py_round1_tenth)
qed

lemma py_round1_le_100: "x \<le> 100 \<Longrightarrow> py_round1 x \<le> 100"
proof -
  assume x: "x \<le> 100"
  then have y: "x * 10 \<le> 1000" by simp
  then have f: "\<lfloor>x * 10\<rfloor> \<le> 1000" by (simp add: floor_le_iff)
  show ?thesis
  proof (cases "\<lfloor>x * 10\<rfloor> = 1000")
    case True
    then have "of_int \<lfloor>x * 10\<rfloor> = (1000 :: rat)" by simp
    with y have "x * 10 - of_int \<lfloor>x * 10\<rfloor> \<le> 0" by simp
    then show ?thesis using True unfolding py_round1_def Let_def by auto
  next
    case False
    with f have "\<lfloor>x * 10\<rfloor> + 1 \<le> 1000" by linarith
    then have "(of_int (\<lfloor>x * 10\<rfloor> + 1) :: rat) \<le> 1000" and "(of_int (\<lfloor>x * 10\<rfloor>) :: rat) \<le> 1000"
      using of_int_le_iff [of "\<lfloor>x * 10\<rfloor> + 1" 1000, where ?'a = rat]
            of_int_le_iff [of "\<lfloor>x * 10\<rfloor>" 1000, where ?'a = rat] by simp_all
    then show ?thesis unfolding py_round1_def Let_def by auto
  qed
qed

lemma score_calculate:
  "score (calculate_flood_probability r1 r3 h w c) =
     py_round1 (min (40 * min (r1 / 20) 1 + 25 * min (r3 / 40) 1
                   + 20 * min (max (h - 60) 0 / 40) 1 + 10 * min (w / 25) 1
                   + 5 * min (c / 100) 1) 100)"
  unfolding calculate_flood_probability_def Let_def
  by (simp only: if_distrib [of score] FloodRisk.simps if_cancel add_0 mult.commute)

lemma level_calculate:
  "level (calculate_flood_probability r1 r3 h w c) =
     (if score (calculate_flood_probability r1 r3 h w c) \<ge> 65 then ''HIGH''
      else if score (calculate_flood_probability r1 r3 h w c) \<ge> 35 then ''MEDIUM''
      else ''LOW'')"
  unfolding calculate_flood_probability_def Let_def
  by (simp only: if_distrib [of score] if_distrib [of level] FloodRisk.simps if_cancel)

lemma color_calculate:
  "color (calculate_flood_probability r1 r3 h w c) =
     (if score (calculate_flood_probability r1 r3 h w c) \<ge> 65 then ''#ef4444''
      else if score (calculate_flood_probability r1 r3 h w c) \<ge> 35 then ''#f59e0b''
      else ''#22c55e'')"
  unfolding calculate_flood_probability_def Let_def
  by (simp only: if_distrib [of score] if_distrib [of color] FloodRisk.simps if_cancel)

lemma color_of_level:
  "color (calculate_flood_probability r1 r3 h w c) =
     (if level (calculate_flood_probability r1 r3 h w c) = ''HIGH'' then ''#ef4444''
      else if level (calculate_flood_probability r1 r3 h w c) = ''MEDIUM'' then ''#f59e0b''
      else ''#22c55e'')"
  by (simp add: level_calculate color_calculate)

lemma py_round1_mono: "x \<le> y \<Longrightarrow> py_round1 x \<le> py_round1 y"
proof -
  assume xy: "x \<le> y"
  define f where "f = \<lfloor>x * 10\<rfloor>"
  define g where "g = \<lfloor>y * 10\<rfloor>"
  define a where "a = x * 10"
  define b where "b = y * 10"
  have ab: "a \<le> b" using xy by (simp add: a_def b_def)
  have fa: "of_int f \<le> a" "a < of_int f + 1" unfolding f_def a_def by linarith+
  have gb: "of_int g \<le> b" "b < of_int g + 1" unfolding g_def b_def by linarith+
  have fg: "f \<le> g" unfolding f_def g_def using xy by (intro floor_mono) simp
  define rx where "rx = (if a - of_int f < 1 / 2 then f
                 else if 1 / 2 < a - of_int f then f + 1
                 else if even f then f else f + 1)"
  define ry where "ry = (if b - of_int g < 1 / 2 then g
                 else if 1 / 2 < b - of_int g then g + 1
                 else if even g then g else g + 1)"
  have "rx \<le> ry"
  proof (cases "f = g")
    case True
    then show ?thesis using ab unfolding rx_def ry_def by auto
  next
    case False
    with fg have "f + 1 \<le> g" by simp
    moreover have "rx \<le> f + 1" unfolding rx_def by auto
    moreover have "g \<le> ry" unfolding ry_def by auto
    ultimately show ?thesis by linarith
  qed
  then have "(of_int rx :: rat) / 10 \<le> of_int ry / 10" by simp
  then show ?thesis
    unfolding py_round1_def Let_def rx_def ry_def f_def g_def a_def b_def .
qed



lemma score_le_of_sum:
  assumes "a' \<le> a"
  shows "py_round1 (min (a' + b + c + d + e) 100) \<le> py_round1 (min (a + b + c + d + e) (100::rat))"
  by (rule py_round1_mono) (use assms in \<open>simp add: min_le_iff_disj\<close>)










section \<open>Properties of binary64 rounding\<close>

lemma pow2_pos [simp]: "0 < (2::rat) powi n"
  by (simp add: zero_less_power_int)

lemma pow2_mono: "m \<le> n \<Longrightarrow> (2::rat) powi m \<le> 2 powi n"
  by (rule power_int_increasing) simp_all

lemma pow2_strict_mono: "m < n \<Longrightarrow> (2::rat) powi m < 2 powi n"
  by (rule power_int_strict_increasing) simp_all

lemma pow2_add: "(2::rat) powi (m + n) = 2 powi m * 2 powi n"
  by (rule power_int_add) simp

lemma pow2_diff: "(2::rat) powi (m - n) = 2 powi m / 2 powi n"
  by (rule power_int_diff) simp

lemma pow2_Suc: "(2::rat) powi (n + 1) = 2 * 2 powi n"
  by (simp add: pow2_add)

lemma bitlen_rat_bounds:
  assumes "0 < p"
  shows "(2::rat) powi (bitlen p - 1) \<le> of_int p" and "of_int p < (2::rat) powi bitlen p"
proof -
  have b1: "1 \<le> bitlen p" using assms bitlen_eq_zero_iff [of p] bitlen_nonneg [of p] by linarith
  from bitlen_bounds [OF assms]
  have lo: "2 ^ nat (bitlen p - 1) \<le> p" and hi: "p < 2 ^ nat (bitlen p)" by simp_all
  have "(2::rat) powi (bitlen p - 1) = 2 ^ nat (bitlen p - 1)"
    using b1 by (simp add: power_int_def)
  also have "\<dots> = of_int (2 ^ nat (bitlen p - 1))" by simp
  also have "\<dots> \<le> of_int p" using lo by (simp only: of_int_le_iff)
  finally show "(2::rat) powi (bitlen p - 1) \<le> of_int p" .
  have "(of_int p :: rat) < of_int (2 ^ nat (bitlen p))" using hi by (simp only: of_int_less_iff)
  also have "\<dots> = 2 ^ nat (bitlen p)" by simp
  also have "\<dots> = (2::rat) powi bitlen p" using b1 by (simp add: power_int_def)
  finally show "of_int p < (2::rat) powi bitlen p" .
qed

lemma ilog2_bounds:
  assumes "0 < x"
  shows "2 powi ilog2 x \<le> x" and "x < 2 powi (ilog2 x + 1)"
proof -
  obtain p q where pq: "quotient_of x = (p, q)" by (cases "quotient_of x")
  have q: "0 < q" by (rule quotient_of_denom_pos [OF pq])
  have x: "x = of_int p / of_int q" by (rule quotient_of_div [OF pq])
  have p: "0 < p" using assms x q by (simp add: zero_less_divide_iff)
  define d where "d = bitlen p - bitlen q"
  have qr: "(0::rat) < of_int q" using q by simp
  have "x < 2 powi bitlen p / of_int q"
    unfolding x using bitlen_rat_bounds(2) [OF p] qr by (simp add: divide_strict_right_mono)
  also have "\<dots> \<le> 2 powi bitlen p / 2 powi (bitlen q - 1)"
    using bitlen_rat_bounds(1) [OF q] qr by (intro divide_left_mono) simp_all
  also have "\<dots> = 2 powi (d + 1)"
  proof -
    have "d + 1 = bitlen p - (bitlen q - 1)" by (simp add: d_def)
    then show ?thesis by (simp only: pow2_diff)
  qed
  finally have hi: "x < 2 powi (d + 1)" .
  have "(2::rat) powi (d - 1) = 2 powi (bitlen p - 1) / 2 powi bitlen q"
  proof -
    have "d - 1 = (bitlen p - 1) - bitlen q" by (simp add: d_def)
    then show ?thesis by (simp only: pow2_diff)
  qed
  also have "\<dots> \<le> of_int p / 2 powi bitlen q"
    using bitlen_rat_bounds(1) [OF p] by (simp add: divide_right_mono)
  also have "\<dots> \<le> x"
    unfolding x using bitlen_rat_bounds(2) [OF q] p qr
    by (intro divide_left_mono) simp_all
  finally have lo: "2 powi (d - 1) \<le> x" .
  have il: "ilog2 x = (if x < 2 powi d then d - 1 else d)"
    by (simp add: ilog2_def pq d_def Let_def)
  show "2 powi ilog2 x \<le> x" using lo by (simp add: il)
  show "x < 2 powi (ilog2 x + 1)" using hi by (simp add: il)
qed

lemma ilog2_unique:
  assumes "2 powi e \<le> x" and "x < 2 powi (e + 1)"
  shows "ilog2 x = e"
proof -
  have pos: "0 < x" using assms(1) pow2_pos [of e] by linarith
  note b = ilog2_bounds [OF pos]
  have "\<not> ilog2 x < e"
  proof
    assume "ilog2 x < e"
    then have "ilog2 x + 1 \<le> e" by simp
    from pow2_mono [OF this] b(2) assms(1) show False by linarith
  qed
  moreover have "\<not> e < ilog2 x"
  proof
    assume "e < ilog2 x"
    then have "e + 1 \<le> ilog2 x" by simp
    from pow2_mono [OF this] b(1) assms(2) show False by linarith
  qed
  ultimately show ?thesis by linarith
qed

lemma rhe_of_int [simp]: "round_half_even (of_int m) = m"
  by (simp add: round_half_even_def)

lemma rhe_lower: "of_int a \<le> x \<Longrightarrow> a \<le> round_half_even x"
proof -
  assume "of_int a \<le> x"
  then have "a \<le> \<lfloor>x\<rfloor>" by (simp add: le_floor_iff)
  moreover have "\<lfloor>x\<rfloor> \<le> round_half_even x" by (simp add: round_half_even_def Let_def)
  ultimately show ?thesis by linarith
qed

lemma rhe_upper: "x \<le> of_int b \<Longrightarrow> round_half_even x \<le> b"
proof -
  assume xb: "x \<le> of_int b"
  then have fb: "\<lfloor>x\<rfloor> \<le> b" by (simp add: floor_le_iff)
  show ?thesis
  proof (cases "\<lfloor>x\<rfloor> = b")
    case True
    then have "of_int b \<le> x" by (metis of_int_floor_le)
    with xb have "x = of_int b" by simp
    then show ?thesis by simp
  next
    case False
    with fb have "\<lfloor>x\<rfloor> + 1 \<le> b" by simp
    moreover have "round_half_even x \<le> \<lfloor>x\<rfloor> + 1" by (simp add: round_half_even_def Let_def)
    ultimately show ?thesis by linarith
  qed
qed

lemma rhe_abs_lower:
  assumes "of_int a \<le> \<bar>x\<bar>"
  shows "a \<le> \<bar>round_half_even x\<bar>"
proof (cases "0 \<le> x")
  case True
  with assms have "of_int a \<le> x" by simp
  from rhe_lower [OF this] show ?thesis by simp
next
  case False
  with assms have "x \<le> of_int (- a)" by simp
  from rhe_upper [OF this] show ?thesis by simp
qed

lemma rhe_abs_upper:
  assumes "\<bar>x\<bar> \<le> of_int b"
  shows "\<bar>round_half_even x\<bar> \<le> b"
proof -
  from assms have "of_int (- b) \<le> x" "x \<le> of_int b" by simp_all
  from rhe_lower [OF this(1)] rhe_upper [OF this(2)] show ?thesis by simp
qed

lemma quantum_pos [simp]: "0 < quantum x"
  by (simp add: quantum_def)

lemma fl_exact:
  assumes "y = of_int k * quantum y" and "\<bar>y\<bar> < 2 powi 1024"
  shows "fl y = Fin y"
proof (cases "y = 0")
  case True
  then show ?thesis by (simp add: fl_def)
next
  case False
  have "y / quantum y = of_int k * quantum y / quantum y" using assms(1) by simp
  then have "y / quantum y = of_int k" using quantum_pos [of y] by simp
  then have "of_int (round_half_even (y / quantum y)) * quantum y = y" using assms(1) by simp
  with False assms(2) show ?thesis by (simp add: fl_def Let_def)
qed

lemma quantum_of_exponent:
  "2 powi e \<le> \<bar>y\<bar> \<Longrightarrow> \<bar>y\<bar> < 2 powi (e + 1) \<Longrightarrow> quantum y = 2 powi (max e (- 1022) - 52)"
  by (simp add: quantum_def ilog2_unique)

lemma quantum_subnormal:
  assumes "y \<noteq> 0" and "\<bar>y\<bar> < 2 powi (- 1022)"
  shows "quantum y = 2 powi (- 1074)"
proof -
  have pos: "0 < \<bar>y\<bar>" using assms(1) by simp
  have "\<not> - 1022 \<le> ilog2 \<bar>y\<bar>"
  proof
    assume "- 1022 \<le> ilog2 \<bar>y\<bar>"
    from pow2_mono [OF this] ilog2_bounds(1) [OF pos] assms(2) show False by linarith
  qed
  then have "max (ilog2 \<bar>y\<bar>) (- 1022) = - 1022" by simp
  then show ?thesis by (simp add: quantum_def)
qed

lemma pow2_shift52: "(2::rat) powi 52 * 2 powi (E - 52) = 2 powi E"
  using pow2_add [of 52 "E - 52"] by simp

lemma pow2_shift53: "(2::rat) powi 53 * 2 powi (E - 52) = 2 powi (E + 1)"
  using pow2_add [of 53 "E - 52"] by (simp add: algebra_simps)

lemma pow2_52: "(of_int (2 ^ 52) :: rat) = 2 powi 52" and pow2_53: "(of_int (2 ^ 53) :: rat) = 2 powi 53"
  by simp_all

lemma grid:
  assumes E: "- 1022 \<le> E" and m0: "m \<noteq> 0" and mb: "\<bar>m\<bar> \<le> 2 ^ 53"
    and norm: "E = - 1022 \<or> 2 ^ 52 \<le> \<bar>m\<bar>"
  shows "\<exists>k. of_int m * 2 powi (E - 52) = of_int k * quantum (of_int m * 2 powi (E - 52))"
proof -
  define q :: rat where "q = 2 powi (E - 52)"
  define y where "y = of_int m * q"
  have qpos: "0 < q" by (simp add: q_def)
  have ay: "\<bar>y\<bar> = of_int \<bar>m\<bar> * q" using qpos by (simp add: y_def abs_mult)
  have y0: "y \<noteq> 0" using m0 qpos by (simp add: y_def)
  consider (top) "\<bar>m\<bar> = 2 ^ 53" | (normal) "2 ^ 52 \<le> \<bar>m\<bar>" "\<bar>m\<bar> < 2 ^ 53" | (sub) "\<bar>m\<bar> < 2 ^ 52"
    using mb by linarith
  then have "\<exists>k. y = of_int k * quantum y"
  proof cases
    case top
    then have "\<bar>y\<bar> = of_int (2 ^ 53) * q" by (simp only: ay)
    then have eq: "\<bar>y\<bar> = 2 powi (E + 1)" by (simp only: pow2_53 q_def pow2_shift53)
    have "quantum y = 2 powi (max (E + 1) (- 1022) - 52)"
      by (rule quantum_of_exponent) (simp_all add: eq pow2_strict_mono)
    also have "max (E + 1) (- 1022) - 52 = (E - 52) + 1" using E by simp
    finally have qy: "quantum y = 2 * q" by (simp only: pow2_Suc q_def)
    from top have "m = 2 ^ 53 \<or> m = - (2 ^ 53)" by linarith
    then have "even m" by auto
    then obtain k where "m = 2 * k" by (elim evenE)
    then have h: "y = of_int k * (2 * q)" by (simp add: y_def)
    have "y = of_int k * quantum y" by (subst qy) (rule h)
    then show ?thesis ..
  next
    case normal
    have "(of_int (2 ^ 52) :: rat) \<le> of_int \<bar>m\<bar>" using normal(1) by (simp only: of_int_le_iff)
    then have "of_int (2 ^ 52) * q \<le> of_int \<bar>m\<bar> * q"
      by (rule mult_right_mono [OF _ less_imp_le [OF qpos]])
    then have lo: "2 powi E \<le> \<bar>y\<bar>" by (simp only: ay pow2_52 q_def pow2_shift52)
    have "(of_int \<bar>m\<bar> :: rat) < of_int (2 ^ 53)" using normal(2) by (simp only: of_int_less_iff)
    then have "of_int \<bar>m\<bar> * q < of_int (2 ^ 53) * q"
      by (rule mult_strict_right_mono [OF _ qpos])
    then have hi: "\<bar>y\<bar> < 2 powi (E + 1)" by (simp only: ay pow2_53 q_def pow2_shift53)
    have "quantum y = 2 powi (max E (- 1022) - 52)" by (rule quantum_of_exponent [OF lo hi])
    also have "max E (- 1022) = E" using E by simp
    finally have "quantum y = q" by (simp only: q_def)
    then have "y = of_int m * quantum y" by (simp add: y_def)
    then show ?thesis ..
  next
    case sub
    with norm have EE: "E = - 1022" by linarith
    have "(of_int \<bar>m\<bar> :: rat) < of_int (2 ^ 52)" using sub by (simp only: of_int_less_iff)
    then have "of_int \<bar>m\<bar> * q < of_int (2 ^ 52) * q"
      by (rule mult_strict_right_mono [OF _ qpos])
    then have "\<bar>y\<bar> < 2 powi E" by (simp only: ay pow2_52 q_def pow2_shift52)
    then have "\<bar>y\<bar> < 2 powi (- 1022)" by (simp only: EE)
    from quantum_subnormal [OF y0 this] have "quantum y = q" by (simp add: q_def EE)
    then have "y = of_int m * quantum y" by (simp add: y_def)
    then show ?thesis ..
  qed
  then show ?thesis by (simp only: y_def q_def)
qed

lemma fl_Fin_cases:
  assumes "fl x = Fin y"
  shows "y = of_int (round_half_even (x / quantum x)) * quantum x \<and> \<bar>y\<bar> < 2 powi 1024"
proof (cases "x = 0")
  case True
  with assms show ?thesis by (simp add: fl_def round_half_even_def)
next
  case False
  with assms show ?thesis
    by (simp add: fl_def Let_def split: if_splits)
qed

lemma fl_idem:
  assumes "fl x = Fin y"
  shows "fl y = Fin y"
proof -
  define e where "e = ilog2 \<bar>x\<bar>"
  define E where "E = max e (- 1022)"
  define q :: rat where "q = 2 powi (E - 52)"
  define m where "m = round_half_even (x / q)"
  have qx: "quantum x = q" by (simp add: quantum_def q_def E_def e_def)
  from fl_Fin_cases [OF assms, unfolded qx]
  have y: "y = of_int m * q" and fin: "\<bar>y\<bar> < 2 powi 1024"
    unfolding m_def by blast+
  have qpos: "0 < q" by (simp add: q_def)
  have E: "- 1022 \<le> E" by (simp add: E_def)
  show ?thesis
  proof (cases "m = 0")
    case True
    then show ?thesis by (simp add: y fl_def)
  next
    case False
    have x0: "x \<noteq> 0"
    proof
      assume "x = 0"
      then have "m = 0" by (simp add: m_def round_half_even_def)
      with False show False ..
    qed
    then have pos: "0 < \<bar>x\<bar>" by simp
    note b = ilog2_bounds [OF pos, folded e_def]
    have ax: "\<bar>x / q\<bar> = \<bar>x\<bar> / q" using qpos by simp
    have "\<bar>x\<bar> < 2 powi (e + 1)" by (rule b(2))
    also have "\<dots> \<le> 2 powi (E + 1)" by (rule pow2_mono) (simp add: E_def)
    also have "\<dots> = 2 powi 53 * q" by (simp only: q_def pow2_shift53)
    finally have "\<bar>x\<bar> / q < 2 powi 53" using qpos by (simp add: pos_divide_less_eq)
    then have "\<bar>x / q\<bar> \<le> of_int (2 ^ 53)" by (simp only: ax pow2_53)
    then have mb: "\<bar>m\<bar> \<le> 2 ^ 53"
      unfolding m_def by (rule rhe_abs_upper)
    have norm: "E = - 1022 \<or> 2 ^ 52 \<le> \<bar>m\<bar>"
    proof (cases "e < - 1022")
      case True
      then show ?thesis by (simp add: E_def)
    next
      case False
      then have Ee: "E = e" by (simp add: E_def)
      have "2 powi 52 * q = 2 powi e" by (simp only: q_def pow2_shift52 Ee)
      also have "\<dots> \<le> \<bar>x\<bar>" by (rule b(1))
      finally have "2 powi 52 \<le> \<bar>x\<bar> / q" using qpos by (simp add: pos_le_divide_eq)
      then have "of_int (2 ^ 52) \<le> \<bar>x / q\<bar>" by (simp only: ax pow2_52)
      then have "2 ^ 52 \<le> \<bar>m\<bar>"
        unfolding m_def by (rule rhe_abs_lower)
      then show ?thesis ..
    qed
    from grid [OF E False mb norm] obtain k where "y = of_int k * quantum y"
      unfolding y q_def by blast
    from fl_exact [OF this fin] show ?thesis .
  qed
qed

lemma floor_rat_numeral_div:
  "\<lfloor>numeral a / numeral b :: rat\<rfloor> = numeral a div numeral b"
  using floor_divide_of_int_eq [of "numeral a" "numeral b", where ?'a = rat] by simp

lemma floor_rat_neg_numeral_div:
  "\<lfloor>- (numeral a / numeral b) :: rat\<rfloor> = - numeral a div numeral b"
  using floor_divide_of_int_eq [of "- numeral a" "numeral b", where ?'a = rat] by simp

lemma fl_zero [simp]: "fl 0 = Fin 0"
  by (simp add: fl_def)

lemma fl_eval:
  assumes lo: "2 ^ 52 \<le> \<bar>x\<bar> * 2 ^ j" and hi: "\<bar>x\<bar> * 2 ^ j < 2 ^ 53" and j: "j \<le> 1074"
    and m: "round_half_even (x * 2 ^ j) = m"
  shows "fl x = Fin (of_int m / 2 ^ j)"
proof -
  have p: "(2::rat) ^ j = 2 powi int j" by simp
  have pj: "(0::rat) < 2 powi int j" by simp
  have x0: "x \<noteq> 0" using lo by auto
  have "(2::rat) powi (52 - int j) = 2 powi 52 / 2 powi int j" by (rule pow2_diff)
  also have "\<dots> \<le> \<bar>x\<bar>" using lo pj unfolding p by (simp add: pos_divide_le_eq)
  finally have l: "2 powi (52 - int j) \<le> \<bar>x\<bar>" .
  have "\<bar>x\<bar> < 2 powi 53 / 2 powi int j" using hi pj unfolding p by (simp add: pos_less_divide_eq)
  also have "\<dots> = 2 powi (53 - int j)" by (rule pow2_diff [symmetric])
  also have "53 - int j = (52 - int j) + 1" by simp
  finally have h: "\<bar>x\<bar> < 2 powi ((52 - int j) + 1)" .
  have "quantum x = 2 powi (max (52 - int j) (- 1022) - 52)" by (rule quantum_of_exponent [OF l h])
  also have "max (52 - int j) (- 1022) - 52 = - int j" using j by simp
  finally have q: "quantum x = 1 / 2 ^ j" by (simp add: power_int_minus_divide)
  have r: "of_int (round_half_even (x / quantum x)) * quantum x = of_int m / 2 ^ j"
    by (simp add: q m)
  have "\<bar>x\<bar> * 2 ^ j \<le> of_int (2 ^ 53)" using hi by simp
  then have "\<bar>x * 2 ^ j\<bar> \<le> of_int (2 ^ 53)" by (simp add: abs_mult)
  from rhe_abs_upper [OF this] have mb: "\<bar>m\<bar> \<le> 2 ^ 53" by (simp only: m)
  have "\<bar>of_int m / (2::rat) ^ j\<bar> = of_int \<bar>m\<bar> / 2 ^ j" by simp
  also have "\<dots> \<le> of_int \<bar>m\<bar> / 1" by (intro divide_left_mono) simp_all
  also have "\<dots> = of_int \<bar>m\<bar>" by simp
  also have "\<dots> \<le> of_int (2 ^ 53)" using mb by (simp only: of_int_le_iff)
  also have "\<dots> < (2::rat) powi 1024" by simp
  finally have fin: "\<not> 2 powi 1024 \<le> \<bar>of_int m / (2::rat) ^ j\<bar>" by simp
  show ?thesis
    unfolding fl_def Let_def r using x0 fin by simp
qed


subsection \<open>The roundings that occur at the inputs of the examples\<close>

lemma fl_0: "fl (- 60) = Fin (- 60)"
  using fl_eval [of "(- 60)" 47 "-8444249301319680"]
  by (simp add: round_half_even_def Let_def floor_rat_numeral_div floor_rat_neg_numeral_div)

lemma fl_1: "fl (1 / 100) = Fin (5764607523034235 / 576460752303423488)"
  using fl_eval [of "(1 / 100)" 59 "5764607523034235"]
  by (simp add: round_half_even_def Let_def floor_rat_numeral_div floor_rat_neg_numeral_div)

lemma fl_2: "fl (3 / 100) = Fin (1080863910568919 / 36028797018963968)"
  using fl_eval [of "(3 / 100)" 58 "8646911284551352"]
  by (simp add: round_half_even_def Let_def floor_rat_numeral_div floor_rat_neg_numeral_div)

lemma fl_3: "fl (28823037615171175 / 576460752303423488) = Fin (3602879701896397 / 72057594037927936)"
  using fl_eval [of "(28823037615171175 / 576460752303423488)" 57 "7205759403792794"]
  by (simp add: round_half_even_def Let_def floor_rat_numeral_div floor_rat_neg_numeral_div)

lemma fl_4: "fl (3602879701896397 / 72057594037927936) = Fin (3602879701896397 / 72057594037927936)"
  using fl_eval [of "(3602879701896397 / 72057594037927936)" 57 "7205759403792794"]
  by (simp add: round_half_even_def Let_def floor_rat_numeral_div floor_rat_neg_numeral_div)

lemma fl_5: "fl (1 / 10) = Fin (3602879701896397 / 36028797018963968)"
  using fl_eval [of "(1 / 10)" 56 "7205759403792794"]
  by (simp add: round_half_even_def Let_def floor_rat_numeral_div floor_rat_neg_numeral_div)

lemma fl_6: "fl (5404319552844595 / 36028797018963968) = Fin (5404319552844595 / 36028797018963968)"
  using fl_eval [of "(5404319552844595 / 36028797018963968)" 55 "5404319552844595"]
  by (simp add: round_half_even_def Let_def floor_rat_numeral_div floor_rat_neg_numeral_div)

lemma fl_7: "fl (17 / 100) = Fin (6124895493223875 / 36028797018963968)"
  using fl_eval [of "(17 / 100)" 55 "6124895493223875"]
  by (simp add: round_half_even_def Let_def floor_rat_numeral_div floor_rat_neg_numeral_div)

lemma fl_8: "fl (7 / 25) = Fin (1261007895663739 / 4503599627370496)"
  using fl_eval [of "(7 / 25)" 54 "5044031582654956"]
  by (simp add: round_half_even_def Let_def floor_rat_numeral_div floor_rat_neg_numeral_div)

lemma fl_9: "fl (3 / 10) = Fin (5404319552844595 / 18014398509481984)"
  using fl_eval [of "(3 / 10)" 54 "5404319552844595"]
  by (simp add: round_half_even_def Let_def floor_rat_numeral_div floor_rat_neg_numeral_div)

lemma fl_10: "fl (9 / 25) = Fin (3242591731706757 / 9007199254740992)"
  using fl_eval [of "(9 / 25)" 54 "6485183463413514"]
  by (simp add: round_half_even_def Let_def floor_rat_numeral_div floor_rat_neg_numeral_div)

lemma fl_11: "fl (2 / 5) = Fin (3602879701896397 / 9007199254740992)"
  using fl_eval [of "(2 / 5)" 54 "7205759403792794"]
  by (simp add: round_half_even_def Let_def floor_rat_numeral_div floor_rat_neg_numeral_div)

lemma fl_12: "fl (1 / 2) = Fin (1 / 2)"
  using fl_eval [of "(1 / 2)" 53 "4503599627370496"]
  by (simp add: round_half_even_def Let_def floor_rat_numeral_div floor_rat_neg_numeral_div)

lemma fl_13: "fl (30624477466119375 / 36028797018963968) = Fin (1914029841632461 / 2251799813685248)"
  using fl_eval [of "(30624477466119375 / 36028797018963968)" 53 "7656119366529844"]
  by (simp add: round_half_even_def Let_def floor_rat_numeral_div floor_rat_neg_numeral_div)

lemma fl_14: "fl 1 = Fin 1"
  using fl_eval [of "1" 52 "4503599627370496"]
  by (simp add: round_half_even_def Let_def floor_rat_numeral_div floor_rat_neg_numeral_div)

lemma fl_15: "fl (6 / 5) = Fin (5404319552844595 / 4503599627370496)"
  using fl_eval [of "(6 / 5)" 52 "5404319552844595"]
  by (simp add: round_half_even_def Let_def floor_rat_numeral_div floor_rat_neg_numeral_div)

lemma fl_16: "fl 2 = Fin 2"
  using fl_eval [of "2" 51 "4503599627370496"]
  by (simp add: round_half_even_def Let_def floor_rat_numeral_div floor_rat_neg_numeral_div)

lemma fl_17: "fl (6305039478318695 / 2251799813685248) = Fin (6305039478318695 / 2251799813685248)"
  using fl_eval [of "(6305039478318695 / 2251799813685248)" 51 "6305039478318695"]
  by (simp add: round_half_even_def Let_def floor_rat_numeral_div floor_rat_neg_numeral_div)

lemma fl_18: "fl (16212958658533785 / 4503599627370496) = Fin (2026619832316723 / 562949953421312)"
  using fl_eval [of "(16212958658533785 / 4503599627370496)" 51 "8106479329266892"]
  by (simp add: round_half_even_def Let_def floor_rat_numeral_div floor_rat_neg_numeral_div)

lemma fl_19: "fl (18014398509481985 / 2251799813685248) = Fin 8"
  using fl_eval [of "(18014398509481985 / 2251799813685248)" 49 "4503599627370496"]
  by (simp add: round_half_even_def Let_def floor_rat_numeral_div floor_rat_neg_numeral_div)

lemma fl_20: "fl (27021597764222975 / 2251799813685248) = Fin 12"
  using fl_eval [of "(27021597764222975 / 2251799813685248)" 49 "6755399441055744"]
  by (simp add: round_half_even_def Let_def floor_rat_numeral_div floor_rat_neg_numeral_div)

lemma fl_21: "fl 12 = Fin 12"
  using fl_eval [of "12" 49 "6755399441055744"]
  by (simp add: round_half_even_def Let_def floor_rat_numeral_div floor_rat_neg_numeral_div)

lemma fl_22: "fl (25 / 2) = Fin (25 / 2)"
  using fl_eval [of "(25 / 2)" 49 "7036874417766400"]
  by (simp add: round_half_even_def Let_def floor_rat_numeral_div floor_rat_neg_numeral_div)

lemma fl_23: "fl 16 = Fin 16"
  using fl_eval [of "16" 48 "4503599627370496"]
  by (simp add: round_half_even_def Let_def floor_rat_numeral_div floor_rat_neg_numeral_div)

lemma fl_24: "fl 20 = Fin 20"
  using fl_eval [of "20" 48 "5629499534213120"]
  by (simp add: round_half_even_def Let_def floor_rat_numeral_div floor_rat_neg_numeral_div)

lemma fl_25: "fl 32 = Fin 32"
  using fl_eval [of "32" 47 "4503599627370496"]
  by (simp add: round_half_even_def Let_def floor_rat_numeral_div floor_rat_neg_numeral_div)

lemma fl_26: "fl (78362633516246631 / 2251799813685248) = Fin (2448832297382707 / 70368744177664)"
  using fl_eval [of "(78362633516246631 / 2251799813685248)" 47 "4897664594765414"]
  by (simp add: round_half_even_def Let_def floor_rat_numeral_div floor_rat_neg_numeral_div)

lemma fl_27: "fl (349 / 10) = Fin (4911738343600947 / 140737488355328)"
  using fl_eval [of "(349 / 10)" 47 "4911738343600947"]
  by (simp add: round_half_even_def Let_def floor_rat_numeral_div floor_rat_neg_numeral_div)

lemma fl_28: "fl (1259206455812790579 / 36028797018963968) = Fin (4918775218018713 / 140737488355328)"
  using fl_eval [of "(1259206455812790579 / 36028797018963968)" 47 "4918775218018713"]
  by (simp add: round_half_even_def Let_def floor_rat_numeral_div floor_rat_neg_numeral_div)

lemma fl_29: "fl 40 = Fin 40"
  using fl_eval [of "40" 47 "5629499534213120"]
  by (simp add: round_half_even_def Let_def floor_rat_numeral_div floor_rat_neg_numeral_div)

lemma fl_30: "fl (105 / 2) = Fin (105 / 2)"
  using fl_eval [of "(105 / 2)" 47 "7388718138654720"]
  by (simp add: round_half_even_def Let_def floor_rat_numeral_div floor_rat_neg_numeral_div)

lemma fl_31: "fl (121 / 2) = Fin (121 / 2)"
  using fl_eval [of "(121 / 2)" 47 "8514618045497344"]
  by (simp add: round_half_even_def Let_def floor_rat_numeral_div floor_rat_neg_numeral_div)

lemma fl_32: "fl (36085092014306099 / 562949953421312) = Fin (2255318250894131 / 35184372088832)"
  using fl_eval [of "(36085092014306099 / 562949953421312)" 46 "4510636501788262"]
  by (simp add: round_half_even_def Let_def floor_rat_numeral_div floor_rat_neg_numeral_div)

lemma fl_33: "fl (649 / 10) = Fin (2283465748565197 / 35184372088832)"
  using fl_eval [of "(649 / 10)" 46 "4566931497130394"]
  by (simp add: round_half_even_def Let_def floor_rat_numeral_div floor_rat_neg_numeral_div)

lemma fl_34: "fl (146254397898856845 / 2251799813685248) = Fin (1142612483584819 / 17592186044416)"
  using fl_eval [of "(146254397898856845 / 2251799813685248)" 46 "4570449934339276"]
  by (simp add: round_half_even_def Let_def floor_rat_numeral_div floor_rat_neg_numeral_div)

lemmas fl_facts = fl_0 fl_1 fl_2 fl_3 fl_4 fl_5 fl_6 fl_7 fl_8 fl_9 fl_10 fl_11 fl_12 fl_13 fl_14 fl_15 fl_16 fl_17 fl_18 fl_19 fl_20 fl_21 fl_22 fl_23 fl_24 fl_25 fl_26 fl_27 fl_28 fl_29 fl_30 fl_31 fl_32 fl_33 fl_34

lemma f64_at_20:
  "calculate_flood_probability_f64 (Fin 20) (Fin 0) (Fin 0) (Fin 0) (Fin 0)
    = \<lparr>score64 = Fin 40, level64 = ''MEDIUM'', color64 = ''#f59e0b''\<rparr>"
  by (simp add: calculate_flood_probability_f64_def Let_def py_round1_def fl_facts
      floor_rat_numeral_div floor_rat_neg_numeral_div)

lemma f64_at_40:
  "calculate_flood_probability_f64 (Fin 40) (Fin 0) (Fin 0) (Fin 0) (Fin 0)
    = \<lparr>score64 = Fin 40, level64 = ''MEDIUM'', color64 = ''#f59e0b''\<rparr>"
  by (simp add: calculate_flood_probability_f64_def Let_def py_round1_def fl_facts
      floor_rat_numeral_div floor_rat_neg_numeral_div)

lemma f64_at_6_0_100_7_3:
  "calculate_flood_probability_f64 (Fin 6) (Fin 0) (Fin 100) (Fin 7) (Fin 3)
    = \<lparr>score64 = Fin (4911738343600947 / 140737488355328), level64 = ''LOW'', color64 = ''#22c55e''\<rparr>"
  by (simp add: calculate_flood_probability_f64_def Let_def py_round1_def fl_facts
      floor_rat_numeral_div floor_rat_neg_numeral_div)

lemma f64_at_0_0_0_0_1:
  "calculate_flood_probability_f64 (Fin 0) (Fin 0) (Fin 0) (Fin 0) (Fin 1)
    = \<lparr>score64 = Fin (3602879701896397 / 36028797018963968), level64 = ''LOW'', color64 = ''#22c55e''\<rparr>"
  by (simp add: calculate_flood_probability_f64_def Let_def py_round1_def fl_facts
      floor_rat_numeral_div floor_rat_neg_numeral_div)

lemma f64_at_24_20_76_9_17:
  "calculate_flood_probability_f64 (Fin 24) (Fin 20) (Fin 76) (Fin 9) (Fin 17)
    = \<lparr>score64 = Fin (2283465748565197 / 35184372088832), level64 = ''MEDIUM'', color64 = ''#f59e0b''\<rparr>"
  by (simp add: calculate_flood_probability_f64_def Let_def py_round1_def fl_facts
      floor_rat_numeral_div floor_rat_neg_numeral_div)

lemma fmulc_cmulf: "fmulc x c = cmulf c x"
  by (cases x) (simp_all add: mult.commute)

lemma fadd_zero_fl: "fadd (Fin 0) (fl z) = fl z"
proof (cases "fl z")
  case (Fin y)
  from fl_idem [OF this] show ?thesis by (simp add: Fin)
qed simp_all

lemma fadd_zero_cmulf: "fadd (Fin 0) (cmulf c x) = cmulf c x"
  by (cases x) (simp_all add: fadd_zero_fl)

lemma score64_calculate:
  "score64 (calculate_flood_probability_f64 r1 r3 h w c) = spec_score_f64 r1 r3 h w c"
  unfolding calculate_flood_probability_f64_def spec_score_f64_def Let_def
  by (simp only: if_distrib [of score64] FloodRisk64.simps if_cancel fmulc_cmulf fadd_zero_cmulf)

lemma double_34_9: "fl (349 / 10) = Fin (4911738343600947 / 140737488355328)"
  using fl_eval [of "349 / 10" 47 4911738343600947]
  by (simp add: round_half_even_def Let_def floor_rat_numeral_div)

lemma double_0_1: "fl (1 / 10) = Fin (3602879701896397 / 36028797018963968)"
  using fl_eval [of "1 / 10" 56 7205759403792794]
  by (simp add: round_half_even_def Let_def floor_rat_numeral_div)

lemma double_64_9: "fl (649 / 10) = Fin (2283465748565197 / 35184372088832)"
  using fl_eval [of "649 / 10" 46 4566931497130394]
  by (simp add: round_half_even_def Let_def floor_rat_numeral_div)

subsection \<open>Claims about the scorer\<close>

text \<open>
  C2. For every input the score returned by \<open>calculate_flood_probability\<close> is the
  specification's formula, evaluated like the source in binary64: the five capped
  factors times their weights 40, 25, 20, 10 and 5, added from left to right, the sum
  capped at 100 and rounded to one decimal. With the other factors zero,
  \<open>rain_1h = 20\<close> gives exactly 40.0, and \<open>rain_1h = 40\<close> gives 40.0 as well, not 80.
  The rounding is fixed by three further inputs: \<open>(6, 0, 100, 7, 3)\<close> gives the double
  34.9 (the floating-point sum is just below 34.95), \<open>(0, 0, 0, 0, 1)\<close> gives 0.1 (the
  double 0.05 is just above 0.05), and \<open>(24, 20, 76, 9, 17)\<close> gives 64.9.
\<close>

theorem calculate_flood_probability_f64_formula:
  "score64 (calculate_flood_probability_f64 rain_1h rain_3h humidity wind_speed clouds)
     = spec_score_f64 rain_1h rain_3h humidity wind_speed clouds
   \<and> score64 (calculate_flood_probability_f64 (Fin 20) (Fin 0) (Fin 0) (Fin 0) (Fin 0)) = Fin 40
   \<and> score64 (calculate_flood_probability_f64 (Fin 40) (Fin 0) (Fin 0) (Fin 0) (Fin 0)) = Fin 40
   \<and> score64 (calculate_flood_probability_f64 (Fin 40) (Fin 0) (Fin 0) (Fin 0) (Fin 0)) \<noteq> Fin 80
   \<and> score64 (calculate_flood_probability_f64 (Fin 6) (Fin 0) (Fin 100) (Fin 7) (Fin 3))
        = fl (349 / 10)
   \<and> score64 (calculate_flood_probability_f64 (Fin 0) (Fin 0) (Fin 0) (Fin 0) (Fin 1))
        = fl (1 / 10)
   \<and> score64 (calculate_flood_probability_f64 (Fin 24) (Fin 20) (Fin 76) (Fin 9) (Fin 17))
        = fl (649 / 10)"
proof (intro conjI)
  show "score64 (calculate_flood_probability_f64 rain_1h rain_3h humidity wind_speed clouds)
     = spec_score_f64 rain_1h rain_3h humidity wind_speed clouds"
    by (rule score64_calculate)
  show "score64 (calculate_flood_probability_f64 (Fin 20) (Fin 0) (Fin 0) (Fin 0) (Fin 0)) = Fin 40"
    by (simp add: f64_at_20)
  show "score64 (calculate_flood_probability_f64 (Fin 40) (Fin 0) (Fin 0) (Fin 0) (Fin 0)) = Fin 40"
    by (simp add: f64_at_40)
  show "score64 (calculate_flood_probability_f64 (Fin 40) (Fin 0) (Fin 0) (Fin 0) (Fin 0)) \<noteq> Fin 80"
    by (simp add: f64_at_40)
  show "score64 (calculate_flood_probability_f64 (Fin 6) (Fin 0) (Fin 100) (Fin 7) (Fin 3))
        = fl (349 / 10)"
    by (simp only: f64_at_6_0_100_7_3 double_34_9 FloodRisk64.simps)
  show "score64 (calculate_flood_probability_f64 (Fin 0) (Fin 0) (Fin 0) (Fin 0) (Fin 1))
        = fl (1 / 10)"
    by (simp only: f64_at_0_0_0_0_1 double_0_1 FloodRisk64.simps)
  show "score64 (calculate_flood_probability_f64 (Fin 24) (Fin 20) (Fin 76) (Fin 9) (Fin 17))
        = fl (649 / 10)"
    by (simp only: f64_at_24_20_76_9_17 double_64_9 FloodRisk64.simps)
qed

theorem calculate_flood_probability_f64_formula_witness:
  "spec_score_f64 (Fin 6) (Fin 0) (Fin 100) (Fin 7) (Fin 3)
     = Fin (4911738343600947 / 140737488355328)
   \<and> spec_score_f64 (Fin 20) (Fin 0) (Fin 0) (Fin 0) (Fin 0) = Fin 40"
  using calculate_flood_probability_f64_formula [of "Fin 6" "Fin 0" "Fin 100" "Fin 7" "Fin 3"]
    calculate_flood_probability_f64_formula [of "Fin 20" "Fin 0" "Fin 0" "Fin 0" "Fin 0"]
  by (simp only: double_34_9)




text \<open>
  C4. For every observation whose rainfall, wind speed and cloud cover are not negative
  (the humidity is arbitrary), the score lies between 0 and 100. The result is a function
  of the five inputs alone, since the source reads nothing else; and the returned score is
  already a one-decimal value: rounding it again leaves it as it is.
\<close>

theorem score_in_range:
  assumes "0 \<le> rain_1h" and "0 \<le> rain_3h" and "0 \<le> wind_speed" and "0 \<le> clouds"
  shows "0 \<le> score (calculate_flood_probability rain_1h rain_3h humidity wind_speed clouds)
    \<and> score (calculate_flood_probability rain_1h rain_3h humidity wind_speed clouds) \<le> 100
    \<and> py_round1 (score (calculate_flood_probability rain_1h rain_3h humidity wind_speed clouds))
        = score (calculate_flood_probability rain_1h rain_3h humidity wind_speed clouds)"
proof -
  define a where "a = 40 * min (rain_1h / 20) 1"
  define b where "b = 25 * min (rain_3h / 40) 1"
  define c where "c = 20 * min (max (humidity - 60) 0 / 40) 1"
  define d where "d = 10 * min (wind_speed / 25) 1"
  define e where "e = 5 * min (clouds / 100) 1"
  have a: "0 \<le> a" unfolding a_def using assms(1) by simp
  have b: "0 \<le> b" unfolding b_def using assms(2) by simp
  have c: "0 \<le> c" unfolding c_def by simp
  have d: "0 \<le> d" unfolding d_def using assms(3) by simp
  have e: "0 \<le> e" unfolding e_def using assms(4) by simp
  have s: "score (calculate_flood_probability rain_1h rain_3h humidity wind_speed clouds)
      = py_round1 (min (a + b + c + d + e) 100)"
    unfolding a_def b_def c_def d_def e_def by (rule score_calculate)
  from a b c d e have "0 \<le> a + b + c + d + e" by linarith
  then have "0 \<le> min (a + b + c + d + e) 100" by simp
  then have lo: "0 \<le> py_round1 (min (a + b + c + d + e) 100)" by (rule py_round1_nonneg)
  have hi: "py_round1 (min (a + b + c + d + e) 100) \<le> 100"
    by (rule py_round1_le_100) (rule min.cobounded2)
  show ?thesis
    unfolding s using lo hi by (simp only: py_round1_idem simp_thms)
qed

theorem score_in_range_witness:
  "(0::rat) \<le> 25 \<and> (0::rat) \<le> 50 \<and> (0::rat) \<le> 100
   \<and> score (calculate_flood_probability 25 50 100 50 100) = 100
   \<and> py_round1 (score (calculate_flood_probability 25 50 100 50 100)) = 100"
proof -
  have h: "(0::rat) \<le> 25" "(0::rat) \<le> 50" "(0::rat) \<le> 100" by simp_all
  have v: "score (calculate_flood_probability 25 50 100 50 100) = 100"
    by (simp add: score_calculate py_round1_def Let_def)
  from score_in_range [of 25 50 50 100 100, OF h(1) h(2) h(2) h(3)] v h show ?thesis by simp
qed

text \<open>
  C5. The level is determined by the score with inclusive lower bounds: HIGH from 65,
  MEDIUM from 35, LOW below; the colour goes with the level (HIGH \<open>#ef4444\<close> red,
  MEDIUM \<open>#f59e0b\<close> amber, LOW \<open>#22c55e\<close> green). Inputs that score 65.0, 64.9, 35.0
  and 34.9 give HIGH, MEDIUM, MEDIUM and LOW, and the observation
  \<open>rain_1h = 25, rain_3h = 0, humidity = 60, wind_speed = 0, clouds = 0\<close> scores 40.0
  with level MEDIUM.
\<close>

theorem level_and_color_of_score:
  "level (calculate_flood_probability rain_1h rain_3h humidity wind_speed clouds) =
     (if score (calculate_flood_probability rain_1h rain_3h humidity wind_speed clouds) \<ge> 65
      then ''HIGH''
      else if score (calculate_flood_probability rain_1h rain_3h humidity wind_speed clouds) \<ge> 35
      then ''MEDIUM'' else ''LOW'')
   \<and> color (calculate_flood_probability rain_1h rain_3h humidity wind_speed clouds) =
     (if level (calculate_flood_probability rain_1h rain_3h humidity wind_speed clouds) = ''HIGH''
      then ''#ef4444''
      else if level (calculate_flood_probability rain_1h rain_3h humidity wind_speed clouds)
                = ''MEDIUM''
      then ''#f59e0b'' else ''#22c55e'')
   \<and> calculate_flood_probability 20 40 0 0 0
        = \<lparr>score = 65, level = ''HIGH'', color = ''#ef4444''\<rparr>
   \<and> calculate_flood_probability 20 (996 / 25) 0 0 0
        = \<lparr>score = 649 / 10, level = ''MEDIUM'', color = ''#f59e0b''\<rparr>
   \<and> calculate_flood_probability (35 / 2) 0 0 0 0
        = \<lparr>score = 35, level = ''MEDIUM'', color = ''#f59e0b''\<rparr>
   \<and> calculate_flood_probability (349 / 20) 0 0 0 0
        = \<lparr>score = 349 / 10, level = ''LOW'', color = ''#22c55e''\<rparr>
   \<and> calculate_flood_probability 25 0 60 0 0
        = \<lparr>score = 40, level = ''MEDIUM'', color = ''#f59e0b''\<rparr>"
proof -
  have a: "calculate_flood_probability 20 40 0 0 0
        = \<lparr>score = 65, level = ''HIGH'', color = ''#ef4444''\<rparr>"
    by (simp add: calculate_flood_probability_def py_round1_def Let_def)
  have b: "calculate_flood_probability 20 (996 / 25) 0 0 0
        = \<lparr>score = 649 / 10, level = ''MEDIUM'', color = ''#f59e0b''\<rparr>"
    by (simp add: calculate_flood_probability_def py_round1_def Let_def)
  have c: "calculate_flood_probability (35 / 2) 0 0 0 0
        = \<lparr>score = 35, level = ''MEDIUM'', color = ''#f59e0b''\<rparr>"
    by (simp add: calculate_flood_probability_def py_round1_def Let_def)
  have d: "calculate_flood_probability (349 / 20) 0 0 0 0
        = \<lparr>score = 349 / 10, level = ''LOW'', color = ''#22c55e''\<rparr>"
    by (simp add: calculate_flood_probability_def py_round1_def Let_def)
  have e: "calculate_flood_probability 25 0 60 0 0
        = \<lparr>score = 40, level = ''MEDIUM'', color = ''#f59e0b''\<rparr>"
    by (simp add: calculate_flood_probability_def py_round1_def Let_def)
  show ?thesis
    by (intro conjI) (rule level_calculate color_of_level a b c d e)+
qed

section \<open>Running the session operations\<close>

lemma bind_return [simp]: "bind_io (return_io x) f s = f x s"
  by (simp add: bind_io_def return_io_def)

lemma bind_raise [simp]: "bind_io (raise_io e) f s = (Inl e, s)"
  by (simp add: bind_io_def raise_io_def)

lemma bind_utcnow [simp]:
  "bind_io (utcnow clk) f s = f (clk (ticks s)) (s\<lparr>ticks := Suc (ticks s)\<rparr>)"
  by (simp add: bind_io_def utcnow_def)

lemma bind_update_alert [simp]:
  "bind_io (update_alert i g) f s =
     f () (s\<lparr>pending := (pending s)\<lparr>alerts :=
            map (\<lambda>r. if alert_id r = i then g r else r) (alerts (pending s))\<rparr>\<rparr>)"
  by (simp add: bind_io_def update_alert_def)

lemma db_call_ok: "faults s = None \<Longrightarrow> db_call s = (Inr (), s)"
  by (simp add: db_call_def)

lemma bind_commit_ok:
  "faults s = None \<Longrightarrow> bind_io db_commit f s = f () (s\<lparr>stored := pending s\<rparr>)"
  by (simp add: bind_io_def db_commit_def db_call_ok)

lemma db_commit_ok:
  "faults s = None \<Longrightarrow> db_commit s = (Inr (), s\<lparr>stored := pending s\<rparr>)"
  by (simp add: bind_io_def db_commit_def db_call_ok)

lemma bind_query_alerts_ok:
  "faults s = None \<Longrightarrow>
   bind_io (query_alerts_all cond) f s = f (filter cond (alerts (pending s))) s"
  by (simp add: bind_io_def query_alerts_all_def db_call_ok)

lemma bind_query_city_ok:
  "faults s = None \<Longrightarrow>
   bind_io (query_city_first cid) f s = f (find (\<lambda>c. city_id c = cid) (cities (pending s))) s"
  by (simp add: bind_io_def query_city_first_def db_call_ok)

lemma bind_reload_city_ok:
  "faults s = None \<Longrightarrow> find (\<lambda>x. city_id x = city_id c) (cities (stored s)) = Some c' \<Longrightarrow>
   bind_io (reload_city c) f s = f c' s"
  by (simp add: bind_io_def reload_city_def db_call_ok)

lemma fire_twice:
  "(\<lambda>r. if alert_id r = i then r\<lparr>trigger_count := trigger_count r + 1\<rparr> else r)
     \<circ> (\<lambda>r. if alert_id r = i then r\<lparr>last_triggered := Some now\<rparr> else r)
   = (\<lambda>r. if alert_id r = i then fired now r else r)"
  by (auto simp: fun_eq_iff fired_def)

lemma trigger_all_run:
  "trigger_all clk as s =
     (Inr (), s\<lparr>pending := (pending s)\<lparr>alerts :=
                   fire_ids clk (ticks s) (map alert_id as) (alerts (pending s))\<rparr>,
               ticks := ticks s + length as\<rparr>)"
proof (induction as arbitrary: s)
  case Nil
  show ?case by (simp add: return_io_def)
next
  case (Cons a as)
  show ?case by (simp add: Cons.IH fire_twice)
qed

lemma check_loop_run:
  "check_loop clk flood as trig s =
     (Inr (trig @ map (\<lambda>a. \<lparr>tr_alert_id = alert_id a, tr_label = label a,
                         tr_threshold = threshold a, tr_current_score = score flood,
                         tr_flood_level = level flood\<rparr>)
                   (filter (\<lambda>a. threshold a \<le> score flood) as)),
      s\<lparr>pending := (pending s)\<lparr>alerts :=
            fire_ids clk (ticks s) (map alert_id (filter (\<lambda>a. threshold a \<le> score flood) as))
              (alerts (pending s))\<rparr>,
        ticks := ticks s + length (filter (\<lambda>a. threshold a \<le> score flood) as)\<rparr>)"
proof (induction as arbitrary: s trig)
  case Nil
  show ?case by (simp add: return_io_def)
next
  case (Cons a as)
  show ?case by (simp add: Cons.IH fire_twice)
qed

lemma fired_id [simp]: "alert_id (fired now a) = alert_id a"
  by (simp add: fired_def)

lemma map_fire_fresh:
  "i \<notin> alert_id ` set tbl \<Longrightarrow> map (\<lambda>r. if alert_id r = i then g r else r) tbl = tbl"
  by (induction tbl) auto

lemma fire_ids_filter:
  "distinct (map alert_id (pre @ tbl)) \<Longrightarrow>
   fire_ids clk n (map alert_id (filter sel tbl)) (pre @ tbl) = pre @ fire_map sel clk n tbl"
proof (induction tbl arbitrary: pre n)
  case Nil
  show ?case by simp
next
  case (Cons a tbl)
  have d: "distinct (map alert_id ((pre @ [a]) @ tbl))" using Cons.prems by simp
  have pre: "alert_id a \<notin> alert_id ` set pre" and tl: "alert_id a \<notin> alert_id ` set tbl"
    using Cons.prems by auto
  show ?case
  proof (cases "sel a")
    case False
    then show ?thesis using Cons.IH [OF d, of n] by simp
  next
    case True
    have d': "distinct (map alert_id ((pre @ [fired (clk n) a]) @ tbl))" using Cons.prems by simp
    have "fire_ids clk n (map alert_id (filter sel (a # tbl))) (pre @ a # tbl)
        = fire_ids clk (Suc n) (map alert_id (filter sel tbl))
            ((pre @ [fired (clk n) a]) @ tbl)"
      using True by (simp add: map_fire_fresh [OF pre] map_fire_fresh [OF tl])
    also have "\<dots> = (pre @ [fired (clk n) a]) @ fire_map sel clk (Suc n) tbl"
      by (rule Cons.IH [OF d'])
    finally show ?thesis using True by simp
  qed
qed

lemma fire_ids_filter0:
  "distinct (map alert_id tbl) \<Longrightarrow>
   fire_ids clk n (map alert_id (filter sel tbl)) tbl = fire_map sel clk n tbl"
  using fire_ids_filter [of "[]" tbl clk n sel] by simp

section \<open>Running the routes\<close>

lemma qualifies_eq:
  "(\<lambda>a. alert_city_id a = cid \<and> is_active a \<and> threshold a \<le> sc) = qualifies cid sc"
  by (simp add: fun_eq_iff qualifies_def)

lemma check_alerts_ok:
  assumes key: "OWM_API_KEY \<noteq> []"
    and city: "find (\<lambda>c. city_id c = cid) (cities db) = Some c"
    and up: "fetch c = Response 200 d"
    and dist: "distinct (map alert_id (alerts db))"
  shows "request (check_alerts OWM_API_KEY clk fetch cid) None (db, t) =
     (Inr \<lparr>cr_city = city_name c, cr_current_flood_score = score (flood_of d),
           cr_flood_level = level (flood_of d),
           cr_alerts_triggered =
             map (\<lambda>a. \<lparr>tr_alert_id = alert_id a, tr_label = label a,
                        tr_threshold = threshold a, tr_current_score = score (flood_of d),
                        tr_flood_level = level (flood_of d)\<rparr>)
               (filter (qualifies cid (score (flood_of d))) (alerts db)),
           cr_total_active_alerts =
             length (filter (\<lambda>a. alert_city_id a = cid \<and> is_active a) (alerts db))\<rparr>,
      db\<lparr>alerts := fire_map (qualifies cid (score (flood_of d))) clk t (alerts db)\<rparr>,
      t + length (filter (qualifies cid (score (flood_of d))) (alerts db)))"
proof -
  have cc: "city_id c = cid" using city by (auto simp: find_Some_iff)
  show ?thesis
    unfolding request_def check_alerts_def
    by (simp add: bind_query_city_ok bind_query_alerts_ok bind_commit_ok city key up Let_def
        bind_io_def [of "check_loop _ _ _ _"] check_loop_run qualifies_eq
        fire_ids_filter0 [OF dist] return_io_def bind_reload_city_ok cc)
qed

lemma weather_response_ok:
  "weather0 d = Inr item \<Longrightarrow>
   weather_response d flood s = (Inr (weather_response_of d item flood), s)"
  by (simp add: weather_response_def return_io_def)

lemma log_weather_run:
  "weather0 d = Inr item \<Longrightarrow>
   log_weather clk cid d flood s =
     (let s' = s\<lparr>pending := (pending s)\<lparr>weather_logs := weather_logs (pending s)
                  @ [weather_log_row cid d item flood
                       (next_id (map wl_id (weather_logs (pending s)))) (clk (ticks s))]\<rparr>,
                 ticks := Suc (ticks s)\<rparr>
      in case faults s of
           None \<Rightarrow> (Inr (), s'\<lparr>stored := pending s'\<rparr>)
         | Some 0 \<Rightarrow> (Inl OperationalError, s')
         | Some (Suc k) \<Rightarrow> (Inr (), s'\<lparr>faults := Some k, stored := pending s'\<rparr>))"
  by (simp add: log_weather_def bind_io_def db_add_weather_log_def db_commit_def db_call_def
      Let_def split: option.splits nat.splits)

lemma get_weather_save_unfold:
  assumes key: "OWM_API_KEY \<noteq> []" and cid: "cid \<noteq> 0"
  shows "get_weather OWM_API_KEY clk (Response 200 d) True (Some cid) =
     bind_io
       (bind_io (log_weather clk cid d (flood_of d)) (\<lambda>_.
        bind_io (query_alerts_all (qualifies cid (score (flood_of d)))) (\<lambda>alerts.
        bind_io (trigger_all clk alerts) (\<lambda>_. db_commit))))
       (\<lambda>_. weather_response d (flood_of d))"
  by (simp add: get_weather_def key cid Let_def qualifies_eq)

lemma get_weather_fault0:
  assumes key: "OWM_API_KEY \<noteq> []" and cid: "cid \<noteq> 0" and w0: "weather0 d = Inr item"
  shows "request (get_weather OWM_API_KEY clk (Response 200 d) True (Some cid)) (Some 0) (db, t)
     = (Inl OperationalError, db, Suc t)"
  unfolding get_weather_save_unfold [OF key cid] request_def
  by (simp add: bind_io_def log_weather_run [OF w0])

lemma get_weather_fault1:
  assumes key: "OWM_API_KEY \<noteq> []" and cid: "cid \<noteq> 0" and w0: "weather0 d = Inr item"
  shows "request (get_weather OWM_API_KEY clk (Response 200 d) True (Some cid)) (Some 1) (db, t)
     = (Inl OperationalError,
        db\<lparr>weather_logs := weather_logs db @ [snapshot_of cid d item clk (db, t)]\<rparr>, Suc t)"
  unfolding get_weather_save_unfold [OF key cid] request_def
  by (simp add: bind_io_def log_weather_run [OF w0] query_alerts_all_def db_call_def
      snapshot_of_def)

lemma get_weather_fault2:
  assumes key: "OWM_API_KEY \<noteq> []" and cid: "cid \<noteq> 0" and w0: "weather0 d = Inr item"
  shows "request (get_weather OWM_API_KEY clk (Response 200 d) True (Some cid)) (Some 2) (db, t)
     = (Inl OperationalError,
        db\<lparr>weather_logs := weather_logs db @ [snapshot_of cid d item clk (db, t)]\<rparr>,
        Suc t + length (filter (qualifies cid (score (flood_of d))) (alerts db)))"
  unfolding get_weather_save_unfold [OF key cid] request_def
  by (simp add: bind_io_def log_weather_run [OF w0] query_alerts_all_def db_call_def
      db_commit_def trigger_all_run snapshot_of_def numeral_2_eq_2)

lemma get_weather_fault_late:
  assumes key: "OWM_API_KEY \<noteq> []" and cid: "cid \<noteq> 0" and w0: "weather0 d = Inr item"
    and f: "f = None \<or> (\<exists>k. f = Some (Suc (Suc (Suc k))))"
  shows "request (get_weather OWM_API_KEY clk (Response 200 d) True (Some cid)) f (db, t)
     = (Inr (weather_response_of d item (flood_of d)),
        db\<lparr>weather_logs := weather_logs db @ [snapshot_of cid d item clk (db, t)],
           alerts := fire_ids clk (Suc t)
             (map alert_id (filter (qualifies cid (score (flood_of d))) (alerts db))) (alerts db)\<rparr>,
        Suc t + length (filter (qualifies cid (score (flood_of d))) (alerts db)))"
  using f unfolding get_weather_save_unfold [OF key cid] request_def
  by (auto simp add: bind_io_def log_weather_run [OF w0] query_alerts_all_def db_call_def
      db_commit_def trigger_all_run snapshot_of_def weather_response_ok [OF w0])

lemma fire_map_ids [simp]: "map alert_id (fire_map sel clk n tbl) = map alert_id tbl"
  by (induction tbl arbitrary: n) simp_all

lemma fire_map_length [simp]: "length (fire_map sel clk n tbl) = length tbl"
  by (induction tbl arbitrary: n) simp_all

lemma fire_map_none [simp]: "fire_map (\<lambda>_. False) clk n tbl = tbl"
  by (induction tbl) simp_all

lemma find_fire_map:
  "find (\<lambda>a. alert_id a = i) tbl = Some a \<Longrightarrow>
   \<exists>k. find (\<lambda>a. alert_id a = i) (fire_map sel clk n tbl)
         = Some (if sel a then fired (clk k) a else a)"
proof (induction tbl arbitrary: n)
  case Nil
  then show ?case by simp
next
  case (Cons b tbl)
  show ?case
  proof (cases "alert_id b = i")
    case True
    with Cons.prems have "b = a" by simp
    with True show ?thesis by auto
  next
    case False
    with Cons.prems have "find (\<lambda>a. alert_id a = i) tbl = Some a" by simp
    from Cons.IH [OF this] False show ?thesis by simp
  qed
qed

lemma fired_within_mono:
  "fired_within sel clk lo hi a a' \<Longrightarrow> lo' \<le> lo \<Longrightarrow> hi \<le> hi' \<Longrightarrow>
   fired_within sel clk lo' hi' a a'"
  unfolding fired_within_def by (cases "sel a") auto

lemma fire_map_evaluated:
  "list_all2 (fired_within sel clk n (n + length (filter sel tbl))) tbl (fire_map sel clk n tbl)"
proof (induction tbl arbitrary: n)
  case Nil
  show ?case by simp
next
  case (Cons b tbl)
  show ?case
  proof (cases "sel b")
    case False
    then have "fired_within sel clk n (n + length (filter sel (b # tbl))) b b"
      by (simp add: fired_within_def)
    then show ?thesis using False Cons.IH [of n] by simp
  next
    case True
    have tl: "list_all2 (fired_within sel clk n (n + length (filter sel (b # tbl))))
        tbl (fire_map sel clk (Suc n) tbl)"
      by (rule list_all2_mono [OF Cons.IH [of "Suc n"]])
        (use True in \<open>auto elim!: fired_within_mono\<close>)
    have hd: "fired_within sel clk n (n + length (filter sel (b # tbl))) b (fired (clk n) b)"
      using True by (auto simp: fired_within_def)
    from hd tl True show ?thesis by simp
  qed
qed

lemma db_alerts_same [simp]: "db\<lparr>alerts := alerts db\<rparr> = (db :: database)"
  by simp

lemma check_alerts_stored:
  assumes dist: "distinct (map alert_id (alerts db))"
  shows "\<exists>sel n. fst (snd (request (check_alerts OWM_API_KEY clk fetch cid) None (db, t)))
            = db\<lparr>alerts := fire_map sel clk n (alerts db)\<rparr>"
proof (cases "find (\<lambda>c. city_id c = cid) (cities db)")
  case None
  then have "fst (snd (request (check_alerts OWM_API_KEY clk fetch cid) None (db, t))) = db"
    by (simp add: request_def check_alerts_def bind_query_city_ok raise_io_def)
  then have "fst (snd (request (check_alerts OWM_API_KEY clk fetch cid) None (db, t)))
      = db\<lparr>alerts := fire_map (\<lambda>_. False) clk 0 (alerts db)\<rparr>" by simp
  then show ?thesis by blast
next
  case (Some c)
  show ?thesis
  proof (cases "OWM_API_KEY \<noteq> [] \<and> (\<exists>d. fetch c = Response 200 d)")
    case True
    then obtain d where k: "OWM_API_KEY \<noteq> []" and u: "fetch c = Response 200 d" by blast
    have "fst (snd (request (check_alerts OWM_API_KEY clk fetch cid) None (db, t)))
        = db\<lparr>alerts := fire_map (qualifies cid (score (flood_of d))) clk t (alerts db)\<rparr>"
      using k Some u dist by (simp add: check_alerts_ok)
    then show ?thesis by blast
  next
    case False
    then have "fst (snd (request (check_alerts OWM_API_KEY clk fetch cid) None (db, t))) = db"
      using Some
      by (cases "fetch c")
        (auto simp add: request_def check_alerts_def bind_query_city_ok raise_io_def)
    then have "fst (snd (request (check_alerts OWM_API_KEY clk fetch cid) None (db, t)))
        = db\<lparr>alerts := fire_map (\<lambda>_. False) clk 0 (alerts db)\<rparr>" by simp
    then show ?thesis by blast
  qed
qed

section \<open>Auxiliary facts about the scenario, the alerts table and the routes\<close>

lemma scenario_score: "flood_of scenario_data = \<lparr>score = 50, level = ''MEDIUM'', color = ''#f59e0b''\<rparr>"
  by (simp add: flood_of_def scenario_data_def get_or_def calculate_flood_probability_def
      py_round1_def Let_def)

lemma scenario_weather0:
  "weather0 scenario_data = Inr \<lparr>item_description = Some ''rain'', item_icon = Some ''10d''\<rparr>"
  by (simp add: weather0_def scenario_data_def)

lemma scenario_distinct: "distinct (map alert_id (alerts scenario_db))"
  by (simp add: scenario_db_def)

lemma scenario_city:
  "find (\<lambda>c. city_id c = 1) (cities scenario_db) =
     Some \<lparr>city_id = 1, city_name = ''Chennai'', country = ''IN'', city_state = [],
           lat = 13, lon = 80, city_created_at = 0, is_favorite = False\<rparr>"
  by (simp add: scenario_db_def)

lemma alert_by_id_fire_map:
  assumes "alert_by_id i db = Some a"
  shows "\<exists>k. alert_by_id i (db\<lparr>alerts := fire_map sel clk n (alerts db)\<rparr>)
           = Some (if sel a then fired (clk k) a else a)"
  using find_fire_map [of i "alerts db" a sel clk n] assms by (simp add: alert_by_id_def)

lemma fired_fields [simp]:
  "trigger_count (fired now a) = trigger_count a + 1"
  "last_triggered (fired now a) = Some now"
  "threshold (fired now a) = threshold a"
  "is_active (fired now a) = is_active a"
  "alert_city_id (fired now a) = alert_city_id a"
  by (simp_all add: fired_def)

lemma check_alerts_repeat_keeps:
  assumes "distinct (map alert_id (alerts db))" and "alert_by_id i db = Some a"
  shows "\<exists>a'. alert_by_id i (fst (check_alerts_repeat OWM_API_KEY clk cid fetches (db, t)))
           = Some a' \<and> trigger_count a \<le> trigger_count a'"
  using assms
proof (induction fetches arbitrary: db t a)
  case Nil
  then show ?case by simp
next
  case (Cons fetch fetches)
  obtain db1 t1 where w: "snd (request (check_alerts OWM_API_KEY clk fetch cid) None (db, t)) = (db1, t1)"
    by (cases "snd (request (check_alerts OWM_API_KEY clk fetch cid) None (db, t))")
  from check_alerts_stored [OF Cons.prems(1), of OWM_API_KEY clk fetch cid t] w
  obtain sel n where db1: "db1 = db\<lparr>alerts := fire_map sel clk n (alerts db)\<rparr>" by auto
  have d1: "distinct (map alert_id (alerts db1))" using Cons.prems(1) by (simp add: db1)
  from alert_by_id_fire_map [OF Cons.prems(2), of sel clk n]
  obtain k where a1: "alert_by_id i db1 = Some (if sel a then fired (clk k) a else a)"
    unfolding db1 by blast
  from Cons.IH [OF d1 a1, of t1]
  obtain a' where "alert_by_id i (fst (check_alerts_repeat OWM_API_KEY clk cid fetches (db1, t1)))
      = Some a'" and "trigger_count (if sel a then fired (clk k) a else a) \<le> trigger_count a'"
    by blast
  then show ?case by (auto simp: w split: if_splits)
qed

lemma check_alerts_repeat_counts:
  assumes "distinct (map alert_id (alerts db))" and "OWM_API_KEY \<noteq> []"
    and "find (\<lambda>c. city_id c = cid) (cities db) = Some c"
    and "alert_by_id i db = Some a" and "alert_city_id a = cid" and "is_active a"
    and "\<forall>fetch\<in>set fetches. \<exists>d. fetch c = Response 200 d \<and> threshold a \<le> score (flood_of d)"
  shows "\<exists>a'. alert_by_id i (fst (check_alerts_repeat OWM_API_KEY clk cid fetches (db, t)))
           = Some a' \<and> trigger_count a' = trigger_count a + int (length fetches)"
  using assms
proof (induction fetches arbitrary: db t a)
  case Nil
  then show ?case by simp
next
  case (Cons fetch fetches)
  from Cons.prems(7) obtain d where u: "fetch c = Response 200 d"
    and th: "threshold a \<le> score (flood_of d)" by auto
  let ?sel = "qualifies cid (score (flood_of d))"
  let ?db1 = "db\<lparr>alerts := fire_map ?sel clk t (alerts db)\<rparr>"
  let ?t1 = "t + length (filter ?sel (alerts db))"
  have w: "snd (request (check_alerts OWM_API_KEY clk fetch cid) None (db, t)) = (?db1, ?t1)"
    using check_alerts_ok [where fetch = fetch and c = c and d = d,
        OF Cons.prems(2) Cons.prems(3) u Cons.prems(1), of clk t] by simp
  have q: "?sel a" using Cons.prems(5,6) th by (simp add: qualifies_def)
  have d1: "distinct (map alert_id (alerts ?db1))" using Cons.prems(1) by simp
  have c1: "find (\<lambda>c. city_id c = cid) (cities ?db1) = Some c" using Cons.prems(3) by simp
  from alert_by_id_fire_map [OF Cons.prems(4), of ?sel clk t] q
  obtain k where a1: "alert_by_id i ?db1 = Some (fired (clk k) a)" by auto
  have rest: "\<forall>fetch\<in>set fetches. \<exists>d. fetch c = Response 200 d
      \<and> threshold (fired (clk k) a) \<le> score (flood_of d)"
    using Cons.prems(7) by simp
  from Cons.IH [OF d1 Cons.prems(2) c1 a1 _ _ rest, of ?t1] Cons.prems(5,6)
  obtain a' where "alert_by_id i (fst (check_alerts_repeat OWM_API_KEY clk cid fetches (?db1, ?t1)))
      = Some a'" and "trigger_count a' = trigger_count (fired (clk k) a) + int (length fetches)"
    by auto
  then show ?case by (auto simp: w)
qed

lemma get_weather_no_save:
  assumes "cid_opt = None \<or> cid_opt = Some 0 \<or> \<not> save_log"
  shows "get_weather OWM_API_KEY clk upstream save_log cid_opt =
     (if OWM_API_KEY = [] then raise_io (HTTPException 500 ''OWM API key not configured.'')
      else case upstream of
        Failed msg \<Rightarrow> raise_io (TransportError msg)
      | Response status_code d \<Rightarrow>
          if status_code \<noteq> 200 then raise_io (HTTPException status_code ''Weather API error.'')
          else weather_response d (flood_of d))"
proof (cases upstream)
  case (Failed msg)
  then show ?thesis by (simp add: get_weather_def)
next
  case (Response status_code d)
  have "bind_io (case cid_opt of None \<Rightarrow> return_io ()
         | Some cid \<Rightarrow>
             if save_log \<and> cid \<noteq> 0 then
               bind_io (log_weather clk cid d (flood_of d)) (\<lambda>_.
               bind_io (query_alerts_all (\<lambda>a. alert_city_id a = cid \<and> is_active a
                            \<and> threshold a \<le> score (flood_of d))) (\<lambda>alerts.
               bind_io (trigger_all clk alerts) (\<lambda>_. db_commit)))
             else return_io ())
        (\<lambda>_. weather_response d (flood_of d)) = weather_response d (flood_of d)"
    using assms by (cases cid_opt) (auto simp: fun_eq_iff)
  with Response show ?thesis by (simp add: get_weather_def Let_def)
qed

lemma weather_response_session: "snd (weather_response d flood s) = s"
  by (cases "weather0 d") (simp_all add: weather_response_def raise_io_def return_io_def)

lemma fold_max_ge: "m \<le> fold max ids (m::int)"
proof (induction ids arbitrary: m)
  case Nil
  show ?case by simp
next
  case (Cons i ids)
  have "m \<le> max i m" by simp
  also have "\<dots> \<le> fold max ids (max i m)" by (rule Cons.IH)
  finally show ?case by simp
qed

lemma fold_max_upper: "i \<in> set ids \<Longrightarrow> i \<le> fold max ids (m::int)"
proof (induction ids arbitrary: m)
  case Nil
  then show ?case by simp
next
  case (Cons j ids)
  show ?case
  proof (cases "i = j")
    case True
    have "i \<le> max j m" using True by simp
    also have "\<dots> \<le> fold max ids (max j m)" by (rule fold_max_ge)
    finally show ?thesis by simp
  next
    case False
    with Cons.prems have "i \<in> set ids" by simp
    from Cons.IH [OF this] show ?thesis by simp
  qed
qed

lemma next_id_fresh: "next_id ids \<notin> set ids"
proof
  assume "next_id ids \<in> set ids"
  from fold_max_upper [OF this, of 0] show False by (simp add: next_id_def)
qed

lemma find_fresh_append:
  "i \<notin> alert_id ` set tbl \<Longrightarrow> alert_id a = i \<Longrightarrow>
   find (\<lambda>r. alert_id r = i) (tbl @ [a]) = Some a"
  by (induction tbl) auto

lemma cycle_emits: "emits (Poll upstream) (fst (cycle clk t upstream))"
proof (cases upstream)
  case (Failed msg)
  then show ?thesis by (simp add: cycle_def try_cycle_def)
next
  case (Response status_code d)
  then show ?thesis
    by (cases "weather0 d") (simp_all add: cycle_def try_cycle_def Let_def)
qed

subsection \<open>Claims about alert evaluation\<close>

text \<open>
  C6. One alert evaluation, by \<open>check_alerts\<close> or by the \<open>save_log\<close> branch of
  \<open>get_weather\<close>, over the alerts table with distinct primary keys: every alert of the
  city that is active and whose threshold is at most the current score has its
  \<open>trigger_count\<close> incremented by exactly 1 and its \<open>last_triggered\<close> set to a clock
  reading taken during the request, and every other alert (inactive, below the score, or
  of another city) is left as it was. \<open>check_alerts\<close> reports exactly the alerts that
  fired.
\<close>

theorem alert_evaluation_fires_qualifying_once:
  assumes dist: "distinct (map alert_id (alerts db))" and key: "OWM_API_KEY \<noteq> []"
  shows "(find (\<lambda>c. city_id c = cid) (cities db) = Some c \<and> fetch c = Response 200 d \<longrightarrow>
           (\<exists>res db' t'.
              request (check_alerts OWM_API_KEY clk fetch cid) None (db, t) = (Inr res, db', t')
              \<and> evaluated_once cid (score (flood_of d)) clk t t' (alerts db) (alerts db')
              \<and> map tr_alert_id (cr_alerts_triggered res)
                  = map alert_id (filter (qualifies cid (score (flood_of d))) (alerts db))))
       \<and> (cid \<noteq> 0 \<and> weather0 d = Inr item \<longrightarrow>
           (\<exists>res db' t'.
              request (get_weather OWM_API_KEY clk (Response 200 d) True (Some cid)) None (db, t)
                = (Inr res, db', t')
              \<and> evaluated_once cid (score (flood_of d)) clk t t' (alerts db) (alerts db')))"
proof (intro conjI impI)
  let ?sel = "qualifies cid (score (flood_of d))"
  let ?m = "length (filter ?sel (alerts db))"
  {
    assume "find (\<lambda>c. city_id c = cid) (cities db) = Some c \<and> fetch c = Response 200 d"
    then have c: "find (\<lambda>c. city_id c = cid) (cities db) = Some c"
      and u: "fetch c = Response 200 d" by simp_all
    have ev: "evaluated_once cid (score (flood_of d)) clk t (t + ?m) (alerts db)
        (alerts (db\<lparr>alerts := fire_map ?sel clk t (alerts db)\<rparr>))"
      unfolding evaluated_once_def using fire_map_evaluated [of ?sel clk t "alerts db"] by simp
    show "\<exists>res db' t'.
        request (check_alerts OWM_API_KEY clk fetch cid) None (db, t) = (Inr res, db', t')
        \<and> evaluated_once cid (score (flood_of d)) clk t t' (alerts db) (alerts db')
        \<and> map tr_alert_id (cr_alerts_triggered res) = map alert_id (filter ?sel (alerts db))"
      unfolding check_alerts_ok [where fetch = fetch and c = c and d = d, OF key c u dist]
      by (intro exI conjI, rule refl, rule ev) (simp add: comp_def)
  }
  {
    assume "cid \<noteq> 0 \<and> weather0 d = Inr item"
    then have cid: "cid \<noteq> 0" and w0: "weather0 d = Inr item" by simp_all
    have "list_all2 (fired_within ?sel clk (Suc t) (Suc t + ?m)) (alerts db)
        (fire_map ?sel clk (Suc t) (alerts db))"
      by (rule fire_map_evaluated)
    then have "list_all2 (fired_within ?sel clk t (Suc t + ?m)) (alerts db)
        (fire_map ?sel clk (Suc t) (alerts db))"
      by (rule list_all2_mono) (auto elim!: fired_within_mono)
    then have ev: "evaluated_once cid (score (flood_of d)) clk t (Suc t + ?m) (alerts db)
        (alerts (db\<lparr>weather_logs := weather_logs db @ [snapshot_of cid d item clk (db, t)],
                   alerts := fire_ids clk (Suc t) (map alert_id (filter ?sel (alerts db)))
                     (alerts db)\<rparr>))"
      unfolding evaluated_once_def by (simp add: fire_ids_filter0 [OF dist])
    show "\<exists>res db' t'.
        request (get_weather OWM_API_KEY clk (Response 200 d) True (Some cid)) None (db, t)
          = (Inr res, db', t')
        \<and> evaluated_once cid (score (flood_of d)) clk t t' (alerts db) (alerts db')"
      unfolding get_weather_fault_late [OF key cid w0 disjI1 [OF refl]]
      by (intro exI conjI, rule refl, rule ev)
  }
qed

theorem alert_evaluation_fires_qualifying_once_witness:
  "distinct (map alert_id (alerts scenario_db)) \<and> ''key'' \<noteq> [] \<and> (1::int) \<noteq> 0
   \<and> (\<exists>res db' t'.
          request (check_alerts ''key'' (\<lambda>n. n) (\<lambda>_. Response 200 scenario_data) 1) None
            (scenario_db, 0) = (Inr res, db', t')
          \<and> evaluated_once 1 50 (\<lambda>n. n) 0 t' (alerts scenario_db) (alerts db')
          \<and> map tr_alert_id (cr_alerts_triggered res) = [1])
   \<and> (\<exists>res db' t'.
          request (get_weather ''key'' (\<lambda>n. n) (Response 200 scenario_data) True (Some 1)) None
            (scenario_db, 0) = (Inr res, db', t')
          \<and> evaluated_once 1 50 (\<lambda>n. n) 0 t' (alerts scenario_db) (alerts db'))
   \<and> map (\<lambda>a. (threshold a, trigger_count a, last_triggered a))
        (alerts (fst (snd (request
           (check_alerts ''key'' (\<lambda>n. n) (\<lambda>_. Response 200 scenario_data) 1) None
           (scenario_db, 0)))))
       = [(30, 1, Some 0), (80, 0, None)]"
proof -
  have key: "''key'' \<noteq> []" by simp
  note th = alert_evaluation_fires_qualifying_once [where db = scenario_db and OWM_API_KEY = "''key''" and cid = 1
      and fetch = "\<lambda>_. Response 200 scenario_data" and d = scenario_data
      and clk = "\<lambda>n. n" and t = 0, OF scenario_distinct key]
  have sel: "filter (qualifies 1 50) (alerts scenario_db) = [hd (alerts scenario_db)]"
    by (simp add: scenario_db_def qualifies_def)
  have a: "\<exists>res db' t'.
          request (check_alerts ''key'' (\<lambda>n. n) (\<lambda>_. Response 200 scenario_data) 1) None
            (scenario_db, 0) = (Inr res, db', t')
          \<and> evaluated_once 1 50 (\<lambda>n. n) 0 t' (alerts scenario_db) (alerts db')
          \<and> map tr_alert_id (cr_alerts_triggered res) = [1]"
    using th [THEN conjunct1, rule_format, OF conjI [OF scenario_city refl]]
    by (simp add: scenario_score sel) (simp add: scenario_db_def)
  have b: "\<exists>res db' t'.
          request (get_weather ''key'' (\<lambda>n. n) (Response 200 scenario_data) True (Some 1)) None
            (scenario_db, 0) = (Inr res, db', t')
          \<and> evaluated_once 1 50 (\<lambda>n. n) 0 t' (alerts scenario_db) (alerts db')"
    using th [THEN conjunct2, rule_format, OF conjI [OF _ scenario_weather0]]
    by (simp add: scenario_score)
  have c: "map (\<lambda>a. (threshold a, trigger_count a, last_triggered a))
        (alerts (fst (snd (request
           (check_alerts ''key'' (\<lambda>n. n) (\<lambda>_. Response 200 scenario_data) 1) None
           (scenario_db, 0)))))
       = [(30, 1, Some 0), (80, 0, None)]"
    unfolding check_alerts_ok [where fetch = "\<lambda>_. Response 200 scenario_data"
        and d = scenario_data, OF key scenario_city refl scenario_distinct]
    by (simp add: scenario_score) (simp add: scenario_db_def qualifies_def fired_def)
  from scenario_distinct key a b c show ?thesis by simp
qed

text \<open>
  C7. There is no debounce: when an active alert of the city qualifies in each of
  \<open>N\<close> successive calls of \<open>check_alerts\<close>, its \<open>trigger_count\<close> grows by exactly
  \<open>N\<close>; and over any sequence of calls, whatever the provider answers, the counter never
  decreases.
\<close>

theorem repeated_evaluation_counts_every_call:
  assumes "distinct (map alert_id (alerts db))" and "OWM_API_KEY \<noteq> []"
    and "find (\<lambda>c. city_id c = cid) (cities db) = Some c"
    and "alert_by_id i db = Some a" and "alert_city_id a = cid" and "is_active a"
    and "\<forall>fetch\<in>set fetches. \<exists>d. fetch c = Response 200 d \<and> threshold a \<le> score (flood_of d)"
  shows "(\<exists>a'. alert_by_id i (fst (check_alerts_repeat OWM_API_KEY clk cid fetches (db, t)))
            = Some a' \<and> trigger_count a' = trigger_count a + int (length fetches))
       \<and> (\<exists>a'. alert_by_id i (fst (check_alerts_repeat OWM_API_KEY clk cid others (db, t)))
            = Some a' \<and> trigger_count a \<le> trigger_count a')"
  using check_alerts_repeat_counts [OF assms] check_alerts_repeat_keeps [OF assms(1) assms(4)]
  by blast

theorem repeated_evaluation_counts_every_call_witness:
  "distinct (map alert_id (alerts scenario_db)) \<and> ''key'' \<noteq> []
   \<and> alert_by_id 1 scenario_db = Some (hd (alerts scenario_db))
   \<and> is_active (hd (alerts scenario_db))
   \<and> threshold (hd (alerts scenario_db)) \<le> score (flood_of scenario_data)
   \<and> (\<exists>a'. alert_by_id 1 (fst (check_alerts_repeat ''key'' (\<lambda>n. n) 1
              [\<lambda>_. Response 200 scenario_data, \<lambda>_. Response 200 scenario_data,
               \<lambda>_. Response 200 scenario_data] (scenario_db, 0))) = Some a'
          \<and> trigger_count a' = 3)
   \<and> (\<exists>a'. alert_by_id 1 (fst (check_alerts_repeat ''key'' (\<lambda>n. n) 1
              [\<lambda>_. Failed ''timeout'', \<lambda>_. Response 500 scenario_data] (scenario_db, 0))) = Some a'
          \<and> 0 \<le> trigger_count a')"
proof -
  have key: "''key'' \<noteq> []" by simp
  have a: "alert_by_id 1 scenario_db = Some (hd (alerts scenario_db))"
    by (simp add: alert_by_id_def scenario_db_def)
  have c: "alert_city_id (hd (alerts scenario_db)) = 1" by (simp add: scenario_db_def)
  have act: "is_active (hd (alerts scenario_db))" by (simp add: scenario_db_def)
  have th: "threshold (hd (alerts scenario_db)) \<le> score (flood_of scenario_data)"
    by (simp add: scenario_db_def scenario_score)
  have cnt: "trigger_count (hd (alerts scenario_db)) = 0" by (simp add: scenario_db_def)
  have all: "\<forall>fetch\<in>set [\<lambda>_. Response 200 scenario_data, \<lambda>_. Response 200 scenario_data,
               \<lambda>_. Response 200 scenario_data].
      \<exists>d. fetch \<lparr>city_id = 1, city_name = ''Chennai'', country = ''IN'', city_state = [],
           lat = 13, lon = 80, city_created_at = 0, is_favorite = False\<rparr> = Response 200 d
        \<and> threshold (hd (alerts scenario_db)) \<le> score (flood_of d)"
    using th by simp
  from repeated_evaluation_counts_every_call [OF scenario_distinct key scenario_city a c act all,
      of "\<lambda>n. n" 0 "[\<lambda>_. Failed ''timeout'', \<lambda>_. Response 500 scenario_data]"]
  show ?thesis using scenario_distinct key a act th cnt by simp
qed

subsection \<open>Claims about the logged weather request\<close>

text \<open>
  C1, as the specification states it, fails: the snapshot and the alert updates are not
  written in one transaction. \<open>_log_weather\<close> commits the snapshot on its own, and the
  alert updates are committed afterwards. When the first commit succeeds and the query
  for the alerts that follows it fails, the snapshot is persisted and the alert of
  threshold 30, which is active and qualifies at score 50, is left as it was.
\<close>

theorem snapshot_persisted_without_alert_update:
  "length (weather_logs (fst (snd (request
       (get_weather ''key'' id (Response 200 scenario_data) True (Some 1)) (Some 1)
       (scenario_db, 0))))) = 1
   \<and> alerts (fst (snd (request
       (get_weather ''key'' id (Response 200 scenario_data) True (Some 1)) (Some 1)
       (scenario_db, 0)))) = alerts scenario_db
   \<and> qualifies 1 (score (flood_of scenario_data)) (hd (alerts scenario_db))
   \<and> trigger_count (hd (alerts scenario_db)) = 0
   \<and> last_triggered (hd (alerts scenario_db)) = None"
proof -
  have key: "''key'' \<noteq> []" by simp
  have one: "(1::int) \<noteq> 0" by simp
  show ?thesis
    unfolding get_weather_fault1 [OF key one scenario_weather0]
    by (simp add: scenario_score) (simp add: scenario_db_def qualifies_def)
qed

text \<open>
  C1, amended. A logged \<open>/weather\<close> request writes in two transactions, the snapshot
  first and the alert updates second. Whatever database call fails, the durable state is
  one of three: nothing written (the first commit failed), the snapshot alone (the
  alert query or the second commit failed), or the snapshot together with the updates
  of all qualifying alerts. So the alert updates are recorded all together or not at all,
  and never without the snapshot; the snapshot can be recorded without them.
\<close>

theorem snapshot_and_alerts_commit_separately:
  assumes key: "OWM_API_KEY \<noteq> []" and cid: "cid \<noteq> 0" and w0: "weather0 d = Inr item"
    and dist: "distinct (map alert_id (alerts db))"
  shows "(f = Some 0 \<longrightarrow>
            fst (snd (request (get_weather OWM_API_KEY clk (Response 200 d) True (Some cid)) f (db, t)))
              = db)
       \<and> (f = Some 1 \<or> f = Some 2 \<longrightarrow>
            fst (snd (request (get_weather OWM_API_KEY clk (Response 200 d) True (Some cid)) f (db, t)))
              = db\<lparr>weather_logs := weather_logs db @ [snapshot_of cid d item clk (db, t)]\<rparr>)
       \<and> (f = None \<or> (\<exists>k. f = Some (k + 3)) \<longrightarrow>
            fst (snd (request (get_weather OWM_API_KEY clk (Response 200 d) True (Some cid)) f (db, t)))
              = db\<lparr>weather_logs := weather_logs db @ [snapshot_of cid d item clk (db, t)],
                   alerts := fire_map (qualifies cid (score (flood_of d))) clk (Suc t) (alerts db)\<rparr>)"
proof (intro conjI impI)
  assume "f = Some 0"
  then show "fst (snd (request (get_weather OWM_API_KEY clk (Response 200 d) True (Some cid)) f (db, t)))
      = db"
    by (simp add: get_weather_fault0 [OF key cid w0])
next
  assume "f = Some 1 \<or> f = Some 2"
  then show "fst (snd (request (get_weather OWM_API_KEY clk (Response 200 d) True (Some cid)) f (db, t)))
      = db\<lparr>weather_logs := weather_logs db @ [snapshot_of cid d item clk (db, t)]\<rparr>"
    by (elim disjE)
      (simp_all only: get_weather_fault1 [OF key cid w0] get_weather_fault2 [OF key cid w0]
        fst_conv snd_conv)
next
  assume "f = None \<or> (\<exists>k. f = Some (k + 3))"
  then have "f = None \<or> (\<exists>k. f = Some (Suc (Suc (Suc k))))"
    by (auto simp: numeral_3_eq_3)
  from get_weather_fault_late [OF key cid w0 this]
  show "fst (snd (request (get_weather OWM_API_KEY clk (Response 200 d) True (Some cid)) f (db, t)))
      = db\<lparr>weather_logs := weather_logs db @ [snapshot_of cid d item clk (db, t)],
           alerts := fire_map (qualifies cid (score (flood_of d))) clk (Suc t) (alerts db)\<rparr>"
    by (simp add: fire_ids_filter0 [OF dist])
qed

theorem snapshot_and_alerts_commit_separately_witness:
  "''key'' \<noteq> [] \<and> (1::int) \<noteq> 0 \<and> distinct (map alert_id (alerts scenario_db))
   \<and> fst (snd (request (get_weather ''key'' (\<lambda>n. n) (Response 200 scenario_data) True (Some 1))
        (Some 0) (scenario_db, 0))) = scenario_db
   \<and> map trigger_count (alerts (fst (snd (request
        (get_weather ''key'' (\<lambda>n. n) (Response 200 scenario_data) True (Some 1))
        (Some 2) (scenario_db, 0))))) = [0, 0]
   \<and> length (weather_logs (fst (snd (request
        (get_weather ''key'' (\<lambda>n. n) (Response 200 scenario_data) True (Some 1))
        (Some 2) (scenario_db, 0))))) = 1
   \<and> map trigger_count (alerts (fst (snd (request
        (get_weather ''key'' (\<lambda>n. n) (Response 200 scenario_data) True (Some 1))
        None (scenario_db, 0))))) = [1, 0]
   \<and> length (weather_logs (fst (snd (request
        (get_weather ''key'' (\<lambda>n. n) (Response 200 scenario_data) True (Some 1))
        None (scenario_db, 0))))) = 1"
proof -
  have key: "''key'' \<noteq> []" by simp
  have one: "(1::int) \<noteq> 0" by simp
  note th = snapshot_and_alerts_commit_separately
    [OF key one scenario_weather0 scenario_distinct, of _ "\<lambda>n. n" 0]
  have a: "fst (snd (request (get_weather ''key'' (\<lambda>n. n) (Response 200 scenario_data) True (Some 1))
        (Some 0) (scenario_db, 0))) = scenario_db"
    using th [of "Some 0"] by simp
  have b: "fst (snd (request (get_weather ''key'' (\<lambda>n. n) (Response 200 scenario_data) True (Some 1))
        (Some 2) (scenario_db, 0)))
      = scenario_db\<lparr>weather_logs := weather_logs scenario_db
          @ [snapshot_of 1 scenario_data \<lparr>item_description = Some ''rain'', item_icon = Some ''10d''\<rparr>
               (\<lambda>n. n) (scenario_db, 0)]\<rparr>"
    using th [of "Some 2"] by simp
  have c: "fst (snd (request (get_weather ''key'' (\<lambda>n. n) (Response 200 scenario_data) True (Some 1))
        None (scenario_db, 0)))
      = scenario_db\<lparr>weather_logs := weather_logs scenario_db
          @ [snapshot_of 1 scenario_data \<lparr>item_description = Some ''rain'', item_icon = Some ''10d''\<rparr>
               (\<lambda>n. n) (scenario_db, 0)],
          alerts := fire_map (qualifies 1 (score (flood_of scenario_data))) (\<lambda>n. n) (Suc 0)
            (alerts scenario_db)\<rparr>"
    using th [of None] by simp
  have d: "map trigger_count (fire_map (qualifies 1 (score (flood_of scenario_data))) (\<lambda>n. n) (Suc 0)
            (alerts scenario_db)) = [1, 0]"
    by (simp add: scenario_score) (simp add: scenario_db_def qualifies_def fired_def)
  have e: "map trigger_count (alerts scenario_db) = [0, 0]" "weather_logs scenario_db = []"
    by (simp_all add: scenario_db_def)
  show ?thesis
    unfolding a b c using key scenario_distinct d e by simp
qed

text \<open>
  C10. In \<open>get_weather\<close> the snapshot write and the alert evaluation run only when
  \<open>save_log\<close> is true and \<open>city_id\<close> is given and not zero. With \<open>save_log\<close> true and
  \<open>city_id\<close> absent or 0 the request behaves as with \<open>save_log\<close> false: it makes no
  database call, so it leaves the database as it was whatever fault is injected, raises
  no error of its own, and for a well-formed answer of the provider it returns the
  scored response.
\<close>

theorem no_city_id_skips_persistence:
  assumes "cid_opt = None \<or> cid_opt = Some 0"
  shows "request (get_weather OWM_API_KEY clk upstream True cid_opt) f (db, t)
           = request (get_weather OWM_API_KEY clk upstream False cid_opt) f (db, t)
       \<and> snd (request (get_weather OWM_API_KEY clk upstream True cid_opt) f (db, t)) = (db, t)
       \<and> (OWM_API_KEY \<noteq> [] \<and> weather0 d = Inr item \<longrightarrow>
            fst (request (get_weather OWM_API_KEY clk (Response 200 d) True cid_opt) f (db, t))
              = Inr (weather_response_of d item (flood_of d)))"
proof (intro conjI impI)
  have t: "cid_opt = None \<or> cid_opt = Some 0 \<or> \<not> True" using assms by simp
  have f: "cid_opt = None \<or> cid_opt = Some 0 \<or> \<not> False" by simp
  show "request (get_weather OWM_API_KEY clk upstream True cid_opt) f (db, t)
           = request (get_weather OWM_API_KEY clk upstream False cid_opt) f (db, t)"
    by (simp only: get_weather_no_save [OF t] get_weather_no_save [OF f])
  show "snd (request (get_weather OWM_API_KEY clk upstream True cid_opt) f (db, t)) = (db, t)"
    unfolding get_weather_no_save [OF t] request_def
    by (cases upstream) (simp_all add: case_prod_beta weather_response_session raise_io_def)
  assume "OWM_API_KEY \<noteq> [] \<and> weather0 d = Inr item"
  then show "fst (request (get_weather OWM_API_KEY clk (Response 200 d) True cid_opt) f (db, t))
              = Inr (weather_response_of d item (flood_of d))"
    unfolding get_weather_no_save [OF t] request_def
    by (simp add: weather_response_ok)
qed

theorem no_city_id_skips_persistence_witness:
  "(Some 0 = None \<or> Some (0::int) = Some 0) \<and> ''key'' \<noteq> []
   \<and> snd (request (get_weather ''key'' (\<lambda>n. n) (Response 200 scenario_data) True (Some 0))
            None (scenario_db, 0)) = (scenario_db, 0)
   \<and> snd (request (get_weather ''key'' (\<lambda>n. n) (Response 200 scenario_data) True None)
            None (scenario_db, 0)) = (scenario_db, 0)
   \<and> fst (request (get_weather ''key'' (\<lambda>n. n) (Response 200 scenario_data) True None)
            None (scenario_db, 0))
       = Inr (weather_response_of scenario_data
                \<lparr>item_description = Some ''rain'', item_icon = Some ''10d''\<rparr>
                \<lparr>score = 50, level = ''MEDIUM'', color = ''#f59e0b''\<rparr>)"
proof -
  have key: "''key'' \<noteq> []" by simp
  have z: "Some 0 = None \<or> Some (0::int) = Some 0" by simp
  have n: "None = None \<or> None = Some (0::int)" by simp
  note thz = no_city_id_skips_persistence [OF z, of "''key''" "\<lambda>n. n" "Response 200 scenario_data" None scenario_db 0]
  note thn = no_city_id_skips_persistence [OF n, of "''key''" "\<lambda>n. n" "Response 200 scenario_data" None scenario_db 0
      scenario_data "\<lparr>item_description = Some ''rain'', item_icon = Some ''10d''\<rparr>"]
  have a: "snd (request (get_weather ''key'' (\<lambda>n. n) (Response 200 scenario_data) True (Some 0))
            None (scenario_db, 0)) = (scenario_db, 0)"
    by (rule thz [THEN conjunct2, THEN conjunct1])
  have b: "snd (request (get_weather ''key'' (\<lambda>n. n) (Response 200 scenario_data) True None)
            None (scenario_db, 0)) = (scenario_db, 0)"
    by (rule thn [THEN conjunct2, THEN conjunct1])
  have c: "fst (request (get_weather ''key'' (\<lambda>n. n) (Response 200 scenario_data) True None)
            None (scenario_db, 0))
       = Inr (weather_response_of scenario_data
                \<lparr>item_description = Some ''rain'', item_icon = Some ''10d''\<rparr>
                (flood_of scenario_data))"
    by (rule thn [THEN conjunct2, THEN conjunct2, rule_format, OF conjI [OF key scenario_weather0]])
  show ?thesis
    by (intro conjI z key a b) (simp only: c scenario_score)
qed

subsection \<open>Claims about alert creation\<close>

text \<open>
  C9. A request to create an alert whose threshold is below 0 or above 100 fails
  validation before the route body runs: no alert row is created and the database is
  as it was, whatever fault is injected. With a threshold within \<open>[0, 100]\<close> and an
  existing city the alert is created: one row is appended, under a fresh key, with the
  threshold, city and label of the request, active, and with no trigger recorded.
\<close>

theorem alert_creation_validates_threshold:
  "(ac_threshold raw < 0 \<or> 100 < ac_threshold raw \<longrightarrow>
      request (post_alerts clk raw) f (db, t) = (Inl RequestValidationError, db, t))
   \<and> (0 \<le> ac_threshold raw \<and> ac_threshold raw \<le> 100
        \<and> find (\<lambda>c. city_id c = ac_city_id raw) (cities db) = Some c \<longrightarrow>
      request (post_alerts clk raw) None (db, t)
        = (Inr \<lparr>alert_id = next_id (map alert_id (alerts db)), alert_city_id = ac_city_id raw,
                threshold = ac_threshold raw, label = ac_label raw, is_active = True,
                created_at = clk t, last_triggered = None, trigger_count = 0\<rparr>,
           db\<lparr>alerts := alerts db @
                [\<lparr>alert_id = next_id (map alert_id (alerts db)), alert_city_id = ac_city_id raw,
                  threshold = ac_threshold raw, label = ac_label raw, is_active = True,
                  created_at = clk t, last_triggered = None, trigger_count = 0\<rparr>]\<rparr>,
           Suc t)
      \<and> next_id (map alert_id (alerts db)) \<notin> alert_id ` set (alerts db))"
proof (intro conjI impI)
  assume "ac_threshold raw < 0 \<or> 100 < ac_threshold raw"
  then have "validate_AlertCreate raw = Inl RequestValidationError"
    by (auto simp: validate_AlertCreate_def)
  then show "request (post_alerts clk raw) f (db, t) = (Inl RequestValidationError, db, t)"
    by (simp add: post_alerts_def request_def raise_io_def)
next
  assume a: "0 \<le> ac_threshold raw \<and> ac_threshold raw \<le> 100
        \<and> find (\<lambda>c. city_id c = ac_city_id raw) (cities db) = Some c"
  then have v: "validate_AlertCreate raw = Inr raw" by (simp add: validate_AlertCreate_def)
  have fresh: "next_id (map alert_id (alerts db)) \<notin> alert_id ` set (alerts db)"
    using next_id_fresh [of "map alert_id (alerts db)"] by simp
  show "request (post_alerts clk raw) None (db, t)
        = (Inr \<lparr>alert_id = next_id (map alert_id (alerts db)), alert_city_id = ac_city_id raw,
                threshold = ac_threshold raw, label = ac_label raw, is_active = True,
                created_at = clk t, last_triggered = None, trigger_count = 0\<rparr>,
           db\<lparr>alerts := alerts db @
                [\<lparr>alert_id = next_id (map alert_id (alerts db)), alert_city_id = ac_city_id raw,
                  threshold = ac_threshold raw, label = ac_label raw, is_active = True,
                  created_at = clk t, last_triggered = None, trigger_count = 0\<rparr>]\<rparr>,
           Suc t)"
    using a
    by (simp add: post_alerts_def v create_alert_def request_def bind_query_city_ok
        bind_io_def [of "db_add_alert _ _"] db_add_alert_def Let_def bind_commit_ok
        db_refresh_alert_def bind_io_def [of db_call] db_call_ok find_fresh_append [OF fresh])
  show "next_id (map alert_id (alerts db)) \<notin> alert_id ` set (alerts db)" by (rule fresh)
qed

theorem alert_creation_validates_threshold_witness:
  "((150::rat) < 0 \<or> 100 < (150::rat))
   \<and> request (post_alerts (\<lambda>n. n) \<lparr>ac_city_id = 1, ac_threshold = 150, ac_label = ''x''\<rparr>)
        None (scenario_db, 0) = (Inl RequestValidationError, scenario_db, 0)
   \<and> (0 \<le> (100::rat) \<and> (100::rat) \<le> 100)
   \<and> fst (request (post_alerts (\<lambda>n. n) \<lparr>ac_city_id = 1, ac_threshold = 100, ac_label = ''x''\<rparr>)
        None (scenario_db, 0))
       = Inr \<lparr>alert_id = 3, alert_city_id = 1, threshold = 100, label = ''x'', is_active = True,
              created_at = 0, last_triggered = None, trigger_count = 0\<rparr>
   \<and> length (alerts (fst (snd (request
        (post_alerts (\<lambda>n. n) \<lparr>ac_city_id = 1, ac_threshold = 100, ac_label = ''x''\<rparr>)
        None (scenario_db, 0))))) = 3"
proof -
  have bad: "(150::rat) < 0 \<or> 100 < (150::rat)" by simp
  have good: "0 \<le> (100::rat) \<and> (100::rat) \<le> 100" by simp
  have nid: "next_id (map alert_id (alerts scenario_db)) = 3"
    by (simp add: next_id_def scenario_db_def)
  have len: "length (alerts scenario_db) = 2" by (simp add: scenario_db_def)
  have a: "request (post_alerts (\<lambda>n. n) \<lparr>ac_city_id = 1, ac_threshold = 150, ac_label = ''x''\<rparr>)
        None (scenario_db, 0) = (Inl RequestValidationError, scenario_db, 0)"
    using alert_creation_validates_threshold
      [of "\<lparr>ac_city_id = 1, ac_threshold = 150, ac_label = ''x''\<rparr>" "\<lambda>n. n" None scenario_db 0]
    by simp
  have b: "request (post_alerts (\<lambda>n. n) \<lparr>ac_city_id = 1, ac_threshold = 100, ac_label = ''x''\<rparr>)
        None (scenario_db, 0)
      = (Inr \<lparr>alert_id = 3, alert_city_id = 1, threshold = 100, label = ''x'', is_active = True,
              created_at = 0, last_triggered = None, trigger_count = 0\<rparr>,
         scenario_db\<lparr>alerts := alerts scenario_db @
           [\<lparr>alert_id = 3, alert_city_id = 1, threshold = 100, label = ''x'', is_active = True,
              created_at = 0, last_triggered = None, trigger_count = 0\<rparr>]\<rparr>, Suc 0)"
    using alert_creation_validates_threshold
      [of "\<lparr>ac_city_id = 1, ac_threshold = 100, ac_label = ''x''\<rparr>" "\<lambda>n. n" None scenario_db 0]
      scenario_city
    by (simp add: nid)
  show ?thesis unfolding a b using bad len by simp
qed

subsection \<open>Claims about the live feed\<close>

text \<open>
  C8. As long as the consumer does not disconnect, every cycle of \<open>event_generator\<close>
  sends exactly one event and then sleeps for the configured interval, and after any
  number of cycles the generator is still running: a failed cycle does not stop the
  later ones. The event is the scored payload when the provider answered with status
  200, the error event \<open>API error\<close> for any other status, and an error event with the
  exception's message when the provider call, or the construction of the payload,
  raised.
\<close>

theorem live_feed_one_event_per_cycle:
  assumes "Disconnect \<notin> set env"
  shows "\<exists>evs. event_generator clk interval t env
             = (concat (map (\<lambda>ev. [Yield ev, Sleep interval]) evs), Running)
           \<and> list_all2 emits env evs"
  using assms
proof (induction env arbitrary: t)
  case Nil
  show ?case by simp
next
  case (Cons sig env)
  from Cons.prems obtain upstream where sig: "sig = Poll upstream"
    by (cases sig) auto
  obtain ev t' where c: "cycle clk t upstream = (ev, t')" by (cases "cycle clk t upstream")
  from Cons.prems have "Disconnect \<notin> set env" by simp
  from Cons.IH [OF this, of t'] obtain evs where
    run: "event_generator clk interval t' env
        = (concat (map (\<lambda>ev. [Yield ev, Sleep interval]) evs), Running)"
    and all: "list_all2 emits env evs" by blast
  have e: "emits sig ev" using cycle_emits [of upstream clk t] c sig by simp
  have "event_generator clk interval t (sig # env)
      = (concat (map (\<lambda>ev. [Yield ev, Sleep interval]) (ev # evs)), Running)"
    by (simp add: sig c run)
  moreover have "list_all2 emits (sig # env) (ev # evs)" using e all by simp
  ultimately show ?case by blast
qed

theorem live_feed_one_event_per_cycle_witness:
  "Disconnect \<notin> set scenario_feed
   \<and> (\<exists>evs. event_generator (\<lambda>n. n) 60 0 scenario_feed
             = (concat (map (\<lambda>ev. [Yield ev, Sleep 60]) evs), Running)
           \<and> list_all2 emits scenario_feed evs)
   \<and> map (\<lambda>a. case a of Yield (Data p) \<Rightarrow> ''data'' | Yield (ErrorEvent m) \<Rightarrow> m | Sleep n \<Rightarrow> ''sleep'')
        (fst (event_generator (\<lambda>n. n) 60 0 scenario_feed))
       = [''data'', ''sleep'', ''timed out'', ''sleep'', ''API error'', ''sleep'', ''data'', ''sleep'']"
proof -
  have d: "Disconnect \<notin> set scenario_feed" by (simp add: scenario_feed_def)
  have v: "map (\<lambda>a. case a of Yield (Data p) \<Rightarrow> ''data'' | Yield (ErrorEvent m) \<Rightarrow> m | Sleep n \<Rightarrow> ''sleep'')
        (fst (event_generator (\<lambda>n. n) 60 0 scenario_feed))
       = [''data'', ''sleep'', ''timed out'', ''sleep'', ''API error'', ''sleep'', ''data'', ''sleep'']"
    by (simp add: scenario_feed_def cycle_def try_cycle_def scenario_weather0 Let_def)
  from live_feed_one_event_per_cycle [OF d, of "\<lambda>n. n" 60 0] d v show ?thesis by blast
qed

end
